theory Spec2Isabelle
  imports Complex_Main "HOL-Library.Sublist"
begin

section \<open>Python numbers, as far as the validation scripts use them\<close>

text \<open>
  \<^verbatim>\<open>test_integer_validation.py\<close> applies \<^verbatim>\<open>round(max(1, nu))\<close> to floats and
  \<^verbatim>\<open>math.floor(min(1000, size))\<close> to ints. A finite Python number is an unbounded int
  or a finite float; a finite float denotes a real number exactly, and comparison,
  \<^verbatim>\<open>max\<close>, \<^verbatim>\<open>min\<close>, \<^verbatim>\<open>round\<close> and \<^verbatim>\<open>math.floor\<close> are exact on it, so a finite
  float is modelled by the real it denotes. A float can also be \<^verbatim>\<open>inf\<close>, \<^verbatim>\<open>-inf\<close> or
  \<^verbatim>\<open>nan\<close>.
\<close>

datatype py_error =
  TypeError | AttributeError | KeyError | ValueError | IndexError | OSError | OverflowError

datatype pynum = PyInt int | PyFloat real

datatype pyvalue = Finite pynum | PosInf | NegInf | NotANumber

fun to_real :: "pynum \<Rightarrow> real" where
  "to_real (PyInt i) = of_int i"
| "to_real (PyFloat r) = r"

definition py_gt :: "pynum \<Rightarrow> pynum \<Rightarrow> bool" where
  "py_gt a b = (to_real b < to_real a)"

definition py_lt :: "pynum \<Rightarrow> pynum \<Rightarrow> bool" where
  "py_lt a b = (to_real a < to_real b)"

text \<open>
  \<^verbatim>\<open>a > b\<close> with the floats that are not finite: \<^verbatim>\<open>inf\<close> is greater than every
  other number and \<^verbatim>\<open>-inf\<close> smaller; every comparison with \<^verbatim>\<open>nan\<close> is false.
\<close>

fun value_gt :: "pyvalue \<Rightarrow> pyvalue \<Rightarrow> bool" where
  "value_gt (Finite a) (Finite b) = py_gt a b"
| "value_gt PosInf (Finite b) = True"
| "value_gt PosInf NegInf = True"
| "value_gt (Finite a) NegInf = True"
| "value_gt a b = False"

text \<open>
  The builtins \<^verbatim>\<open>max(a, b)\<close> and \<^verbatim>\<open>min(a, b)\<close> keep the first argument unless
  the second is strictly greater (smaller); the value returned keeps its own type.
  The source takes \<^verbatim>\<open>max\<close> of an int and a float, \<^verbatim>\<open>min\<close> of two ints.
\<close>

definition py_max :: "pyvalue \<Rightarrow> pyvalue \<Rightarrow> pyvalue" where
  "py_max a b = (if value_gt b a then b else a)"

definition py_min :: "pynum \<Rightarrow> pynum \<Rightarrow> pynum" where
  "py_min a b = (if py_lt b a then b else a)"

text \<open>
  One-argument \<^verbatim>\<open>round\<close> returns an int: an int unchanged, a finite float rounded
  to the nearest integer, a tie going to the even neighbour. On \<^verbatim>\<open>inf\<close> and
  \<^verbatim>\<open>-inf\<close> it raises \<^verbatim>\<open>OverflowError\<close>, on \<^verbatim>\<open>nan\<close> \<^verbatim>\<open>ValueError\<close>.
\<close>

definition round_half_even :: "real \<Rightarrow> int" where
  "round_half_even r =
     (let f = \<lfloor>r\<rfloor>; d = r - of_int f
      in if d < 1 / 2 then f
         else if 1 / 2 < d then f + 1
         else if even f then f else f + 1)"

fun py_round :: "pynum \<Rightarrow> int" where
  "py_round (PyInt i) = i"
| "py_round (PyFloat r) = round_half_even r"

fun builtin_round :: "pyvalue \<Rightarrow> py_error + int" where
  "builtin_round (Finite n) = Inr (py_round n)"
| "builtin_round PosInf = Inl OverflowError"
| "builtin_round NegInf = Inl OverflowError"
| "builtin_round NotANumber = Inl ValueError"

fun math_floor :: "pynum \<Rightarrow> int" where
  "math_floor (PyInt i) = i"
| "math_floor (PyFloat r) = \<lfloor>r\<rfloor>"

section \<open>The Validation Guard\<close>

text \<open>
  \<^verbatim>\<open>df_int = round(max(1, nu))\<close>, with \<^verbatim>\<open>nu\<close> any number: the value stored, or
  the exception raised.
\<close>

definition df_int :: "pyvalue \<Rightarrow> py_error + int" where
  "df_int nu = builtin_round (py_max (Finite (PyInt 1)) nu)"

text \<open>\<^verbatim>\<open>nSim = math.floor(min(1000, size))\<close>, with \<^verbatim>\<open>size\<close> an int.\<close>

definition nSim :: "int \<Rightarrow> int" where
  "nSim sz = math_floor (py_min (PyInt 1000) (PyInt sz))"

text \<open>The branch \<^verbatim>\<open>if nSim >= 2\<close>: the correlated draw proceeds or is skipped.\<close>

datatype sampling = Proceed int | Skip int

definition sampling_gate :: "int \<Rightarrow> sampling" where
  "sampling_gate sz = (let n = nSim sz in if 2 \<le> n then Proceed n else Skip n)"

section \<open>NumPy arrays and loaded MAT files\<close>

text \<open>
  What \<^verbatim>\<open>scipy.io.loadmat\<close> hands to the two assemblers. An array has a shape,
  its elements in row-major (C) order and a dtype; only two kinds of dtype matter
  to the code: the numeric ones, on which \<^verbatim>\<open>np.isnan\<close> works, and the others (object,
  string, record), on which it raises \<^verbatim>\<open>TypeError\<close>. An element is a number, NaN,
  or something else (a string, a record, a nested array).
\<close>

datatype elem = Num real | NaN | Other

datatype np_dtype = Float64 | Object

record ndarray =
  shape :: "nat list"
  items :: "elem list"
  dtype :: np_dtype

definition well_formed :: "ndarray \<Rightarrow> bool" where
  "well_formed a = (length (items a) = prod_list (shape a))"

definition ndim :: "ndarray \<Rightarrow> nat" where
  "ndim a = length (shape a)"

text \<open>\<^verbatim>\<open>a[i]\<close> of a one-dimensional and \<^verbatim>\<open>a[i, j]\<close> of a two-dimensional array.\<close>

definition at1 :: "ndarray \<Rightarrow> nat \<Rightarrow> elem" where
  "at1 a i = items a ! i"

definition at2 :: "ndarray \<Rightarrow> nat \<Rightarrow> nat \<Rightarrow> elem" where
  "at2 a i j = items a ! (i * (shape a ! 1) + j)"

text \<open>\<^verbatim>\<open>a.flatten()\<close>: one dimension of \<^verbatim>\<open>a.size\<close> elements, in row-major order.\<close>

definition flatten :: "ndarray \<Rightarrow> ndarray" where
  "flatten a = a\<lparr>shape := [prod_list (shape a)]\<rparr>"

text \<open>\<^verbatim>\<open>np.array([])\<close>\<close>

definition np_empty :: ndarray where
  "np_empty = \<lparr>shape = [0], items = [], dtype = Float64\<rparr>"

text \<open>\<^verbatim>\<open>len(a)\<close> is the first dimension; a zero-dimensional array has no length.\<close>

definition py_len :: "ndarray \<Rightarrow> py_error + nat" where
  "py_len a = (case shape a of [] \<Rightarrow> Inl TypeError | n # _ \<Rightarrow> Inr n)"

definition np_isnan :: "ndarray \<Rightarrow> py_error + bool list" where
  "np_isnan a =
     (case dtype a of
        Float64 \<Rightarrow> Inr (map (\<lambda>e. e = NaN) (items a))
      | Object \<Rightarrow> Inl TypeError)"

text \<open>\<^verbatim>\<open>np.sum(~mask)\<close>\<close>

definition count_not :: "bool list \<Rightarrow> nat" where
  "count_not flags = length (filter (\<lambda>b. \<not> b) flags)"

text \<open>
  \<^verbatim>\<open>a[~np.isnan(a)]\<close> keeps the elements that are not NaN, in order;
  \<^verbatim>\<open>np.unique\<close> sorts them and drops repetitions.
\<close>

fun num_of :: "elem \<Rightarrow> real list" where
  "num_of (Num r) = [r]"
| "num_of NaN = []"
| "num_of Other = []"

definition valid_values :: "ndarray \<Rightarrow> real list" where
  "valid_values a = concat (map num_of (items a))"

definition np_unique :: "real list \<Rightarrow> real list" where
  "np_unique rs = sort (remdups rs)"

text \<open>
  A variable of a MAT file: the array itself and, when its dtype is a record
  (\<^verbatim>\<open>dtype.names\<close> is a non-empty tuple), one array per named field, in declared
  order. \<^verbatim>\<open>dtype.names\<close> of a plain array is \<^verbatim>\<open>None\<close>: the empty list here, as the
  code only tests its truth value.
\<close>

record mat_array =
  whole :: ndarray
  columns :: "(string \<times> ndarray) list"

definition dtype_names :: "mat_array \<Rightarrow> string list" where
  "dtype_names v = map fst (columns v)"

text \<open>\<^verbatim>\<open>v[name]\<close>\<close>

definition getfield :: "mat_array \<Rightarrow> string \<Rightarrow> py_error + ndarray" where
  "getfield v name = (case map_of (columns v) name of None \<Rightarrow> Inl ValueError | Some c \<Rightarrow> Inr c)"

text \<open>
  The dict \<^verbatim>\<open>loadmat\<close> returns, in key order: the entries \<^verbatim>\<open>__header__\<close>,
  \<^verbatim>\<open>__version__\<close>, \<^verbatim>\<open>__globals__\<close> hold no array. A file is absent, or present and
  unreadable (\<^verbatim>\<open>loadmat\<close> raises), or loaded.
\<close>

datatype mat_entry = Meta | Var mat_array

type_synonym mat_dict = "(string \<times> mat_entry) list"

datatype mat_file = Missing | Unreadable | Loaded mat_dict

type_synonym file_system = "string \<Rightarrow> mat_file"

section \<open>Strings\<close>

text \<open>\<^verbatim>\<open>key.startswith(pre)\<close>, \<^verbatim>\<open>sub in s\<close> and \<^verbatim>\<open>s.lower()\<close> on ASCII names.\<close>

definition startswith :: "string \<Rightarrow> string \<Rightarrow> bool" where
  "startswith s pre = (take (length pre) s = pre)"

fun py_in :: "string \<Rightarrow> string \<Rightarrow> bool" where
  "py_in sub [] = (sub = [])"
| "py_in sub (c # cs) = (prefix sub (c # cs) \<or> py_in sub cs)"

definition lower_char :: "char \<Rightarrow> char" where
  "lower_char c =
     (case map_of (zip ''ABCDEFGHIJKLMNOPQRSTUVWXYZ'' ''abcdefghijklmnopqrstuvwxyz'') c of
        Some l \<Rightarrow> l
      | None \<Rightarrow> c)"

definition py_lower :: "string \<Rightarrow> string" where
  "py_lower s = map lower_char s"

section \<open>The product universe and the state of a run\<close>

definition products :: "string list" where
  "products = [''nodalPrices'', ''hubPrices'', ''nodalGeneration'', ''regup'', ''regdown'',
               ''nonspin'', ''hourlyHubForecasts'', ''hourlyNodalForecasts'']"

definition regime_filename :: "string \<Rightarrow> string" where
  "regime_filename product = ''EDA_Results/regimeLabels_'' @ product @ ''.mat''"

definition returns_filename :: "string \<Rightarrow> string" where
  "returns_filename product = ''EDA_Results/returnsTable_'' @ product @ ''.mat''"

text \<open>
  What the scripts print, as far as it carries data. The lines of the loading loop start
  with the file name of the product they are about.
\<close>

datatype message =
    FileNotFound string
  | ErrorCaught py_error
  | NoDataVariables
  | RegimeStats string nat "real list"
  | NoReturnsTable
  | ReturnsLoaded nat
  | TableLine string nat nat
  | NoDataLine string
  | SaveError

type_synonym panel = "string \<rightharpoonup> ndarray"

record run_state =
  combined :: panel
  printed :: "message list"

definition store :: "string \<Rightarrow> ndarray \<Rightarrow> run_state \<Rightarrow> run_state" where
  "store product a st = st\<lparr>combined := (combined st)(product \<mapsto> a)\<rparr>"

definition print :: "message \<Rightarrow> run_state \<Rightarrow> run_state" where
  "print msg st = st\<lparr>printed := printed st @ [msg]\<rparr>"

text \<open>
  A block of statements ends normally or raises; either way the dict holds what was
  assigned before.
\<close>

datatype outcome = Normal run_state | Raised py_error run_state

text \<open>\<^verbatim>\<open>for product in products:\<close> An exception that leaves the body leaves the loop.\<close>

fun for_products :: "(string \<Rightarrow> run_state \<Rightarrow> outcome) \<Rightarrow> string list \<Rightarrow> run_state \<Rightarrow> outcome" where
  "for_products body [] st = Normal st"
| "for_products body (product # rest) st =
     (case body product st of
        Normal st' \<Rightarrow> for_products body rest st'
      | Raised e st' \<Rightarrow> Raised e st')"

definition initial :: run_state where
  "initial = \<lparr>combined = Map.empty, printed = []\<rparr>"

section \<open>\<^verbatim>\<open>combine_regime_labels\<close>\<close>

text \<open>
  The body of the \<^verbatim>\<open>try\<close>, after \<^verbatim>\<open>loadmat\<close> has returned \<^verbatim>\<open>data\<close>. The array is
  assigned to the dict before the statistics are computed; \<^verbatim>\<open>np.isnan\<close> and
  \<^verbatim>\<open>len\<close> may raise after that.
\<close>

definition squeeze_vector :: "ndarray \<Rightarrow> ndarray" where
  "squeeze_vector regime_data =
     (if ndim regime_data = 2 \<and> (shape regime_data ! 0 = 1 \<or> shape regime_data ! 1 = 1)
      then flatten regime_data else regime_data)"

definition regime_try :: "string \<Rightarrow> mat_dict \<Rightarrow> run_state \<Rightarrow> outcome" where
  "regime_try product data st =
     (let main_vars = filter (\<lambda>key. \<not> startswith key ''__'') (map fst data)
      in case main_vars of
           [] \<Rightarrow> Normal (store product np_empty (print NoDataVariables st))
         | var_name # _ \<Rightarrow>
             (case map_of data var_name of
                None \<Rightarrow> Raised KeyError st
              | Some Meta \<Rightarrow> Raised AttributeError st
              | Some (Var v) \<Rightarrow>
                  (let regime_data = squeeze_vector (whole v);
                       st1 = store product regime_data st
                   in case np_isnan regime_data of
                        Inl e \<Rightarrow> Raised e st1
                      | Inr nan_flags \<Rightarrow>
                          (let unique_regimes = np_unique (valid_values regime_data)
                           in case py_len regime_data of
                                Inl e \<Rightarrow> Raised e st1
                              | Inr n \<Rightarrow> Normal (print (RegimeStats product n unique_regimes) st1)))))"

text \<open>\<^verbatim>\<open>except Exception as e:\<close>\<close>

definition regime_except :: "string \<Rightarrow> py_error \<Rightarrow> run_state \<Rightarrow> outcome" where
  "regime_except product e st = Normal (store product np_empty (print (ErrorCaught e) st))"

definition regime_product :: "file_system \<Rightarrow> string \<Rightarrow> run_state \<Rightarrow> outcome" where
  "regime_product fs product st =
     (let filename = regime_filename product
      in case fs filename of
           Missing \<Rightarrow> Normal (store product np_empty (print (FileNotFound filename) st))
         | Unreadable \<Rightarrow> regime_except product OSError st
         | Loaded data \<Rightarrow>
             (case regime_try product data st of
                Normal st' \<Rightarrow> Normal st'
              | Raised e st' \<Rightarrow> regime_except product e st'))"

text \<open>
  The whole function. \<^verbatim>\<open>save_ok\<close> says whether \<^verbatim>\<open>savemat\<close> and the read-back of
  the saved file went through; the function returns \<^verbatim>\<open>True\<close> then and \<^verbatim>\<open>False\<close>
  otherwise. The result is the dict built and the value returned, or the exception
  that left the function. The lines printed about the file read back are left out.
\<close>

definition combine_regime_labels :: "file_system \<Rightarrow> bool \<Rightarrow> py_error + run_state \<times> bool" where
  "combine_regime_labels fs save_ok =
     (case for_products (regime_product fs) products initial of
        Raised e st \<Rightarrow> Inl e
      | Normal st \<Rightarrow> if save_ok then Inr (st, True) else Inr (print SaveError st, False))"

section \<open>\<^verbatim>\<open>combine_returns_tables\<close>\<close>

subsection \<open>Choosing the data field of a structured array\<close>

text \<open>
  The condition of the loop over \<^verbatim>\<open>field_names\<close>:
  \<^verbatim>\<open>product in field or (field != 'Timestamp' and field != 'Time')\<close>.
\<close>

definition primary_match :: "string \<Rightarrow> string \<Rightarrow> bool" where
  "primary_match product field =
     (py_in product field \<or> (field \<noteq> ''Timestamp'' \<and> field \<noteq> ''Time''))"

text \<open>The loop with its \<^verbatim>\<open>break\<close>; \<^verbatim>\<open>data_field\<close> starts as \<^verbatim>\<open>None\<close>.\<close>

fun first_match :: "string \<Rightarrow> string list \<Rightarrow> string option" where
  "first_match product [] = None"
| "first_match product (field # rest) =
     (if primary_match product field then Some field else first_match product rest)"

text \<open>
  The filter of the fallback:
  \<^verbatim>\<open>'time' not in f.lower() and 'date' not in f.lower()\<close>.
\<close>

definition non_time :: "string \<Rightarrow> bool" where
  "non_time f = (\<not> py_in ''time'' (py_lower f) \<and> \<not> py_in ''date'' (py_lower f))"

text \<open>
  \<^verbatim>\<open>if data_field:\<close> holds for a non-empty string only. The name selected is the one
  the code indexes \<^verbatim>\<open>returns_data\<close> with; \<^verbatim>\<open>field_names[0]\<close> of an empty tuple raises
  \<^verbatim>\<open>IndexError\<close>.
\<close>

definition select_field :: "string \<Rightarrow> string list \<Rightarrow> py_error + string" where
  "select_field product field_names =
     (case first_match product field_names of
        Some (c # cs) \<Rightarrow> Inr (c # cs)
      | _ \<Rightarrow>
          (case filter non_time field_names of
             f # _ \<Rightarrow> Inr f
           | [] \<Rightarrow> (case field_names of f # _ \<Rightarrow> Inr f | [] \<Rightarrow> Inl IndexError)))"

text \<open>
  The same procedure as a relation between the inputs and the name a run ends with: one
  rule per way through the loop, one rule per branch after it.
\<close>

inductive loop_ends :: "string \<Rightarrow> string list \<Rightarrow> string option \<Rightarrow> bool" for product where
  exhausted: "loop_ends product [] None"
| broke: "primary_match product field \<Longrightarrow> loop_ends product (field # rest) (Some field)"
| went_on: "\<not> primary_match product field \<Longrightarrow> loop_ends product rest r
     \<Longrightarrow> loop_ends product (field # rest) r"

inductive selects :: "string \<Rightarrow> string list \<Rightarrow> string \<Rightarrow> bool" where
  by_loop: "loop_ends product fs (Some f) \<Longrightarrow> f \<noteq> [] \<Longrightarrow> selects product fs f"
| by_non_time: "loop_ends product fs r \<Longrightarrow> r = None \<or> r = Some [] \<Longrightarrow> filter non_time fs = g # gs
     \<Longrightarrow> selects product fs g"
| by_first: "loop_ends product fs r \<Longrightarrow> r = None \<or> r = Some [] \<Longrightarrow> filter non_time fs = []
     \<Longrightarrow> fs = g # gs \<Longrightarrow> selects product fs g"

text \<open>
  The precedence as the specification words it: (a) a field whose name contains the
  product name, (b) otherwise the first field whose name does not match a timestamp or
  date pattern, (c) otherwise the first field.
\<close>

definition spec_select_field :: "string \<Rightarrow> string list \<Rightarrow> py_error + string" where
  "spec_select_field product field_names =
     (case filter (py_in product) field_names of
        f # _ \<Rightarrow> Inr f
      | [] \<Rightarrow>
          (case filter non_time field_names of
             f # _ \<Rightarrow> Inr f
           | [] \<Rightarrow> (case field_names of f # _ \<Rightarrow> Inr f | [] \<Rightarrow> Inl IndexError)))"

subsection \<open>The assembler\<close>

text \<open>
  The series taken from \<^verbatim>\<open>returns_data\<close>: the selected field of a structured array,
  or the array itself, flattened.
\<close>

definition extract_series :: "string \<Rightarrow> mat_array \<Rightarrow> py_error + ndarray" where
  "extract_series product returns_data =
     (let field_names = dtype_names returns_data
      in if field_names \<noteq> [] then
           (case select_field product field_names of
              Inl e \<Rightarrow> Inl e
            | Inr data_field \<Rightarrow>
                (case getfield returns_data data_field of
                   Inl e \<Rightarrow> Inl e
                 | Inr c \<Rightarrow> Inr (flatten c)))
         else Inr (flatten (whole returns_data)))"

definition returns_try :: "string \<Rightarrow> mat_dict \<Rightarrow> run_state \<Rightarrow> outcome" where
  "returns_try product data st =
     (let main_vars = filter (\<lambda>key. \<not> startswith key ''__'') (map fst data)
      in if ''returnsTable'' \<in> set main_vars then
           (case map_of data ''returnsTable'' of
              None \<Rightarrow> Raised KeyError st
            | Some Meta \<Rightarrow> Raised AttributeError st
            | Some (Var returns_data) \<Rightarrow>
                (case extract_series product returns_data of
                   Inl e \<Rightarrow> Raised e st
                 | Inr series \<Rightarrow>
                     (let st1 = store product series st
                      in case py_len series of
                           Inl e \<Rightarrow> Raised e st1
                         | Inr n \<Rightarrow> Normal (print (ReturnsLoaded n) st1))))
         else Normal (store product np_empty (print NoReturnsTable st)))"

definition returns_except :: "string \<Rightarrow> py_error \<Rightarrow> run_state \<Rightarrow> outcome" where
  "returns_except product e st = Normal (store product np_empty (print (ErrorCaught e) st))"

definition returns_product :: "file_system \<Rightarrow> string \<Rightarrow> run_state \<Rightarrow> outcome" where
  "returns_product fs product st =
     (let filename = returns_filename product
      in case fs filename of
           Missing \<Rightarrow> Normal (store product np_empty (print (FileNotFound filename) st))
         | Unreadable \<Rightarrow> returns_except product OSError st
         | Loaded data \<Rightarrow>
             (case returns_try product data st of
                Normal st' \<Rightarrow> Normal st'
              | Raised e st' \<Rightarrow> returns_except product e st'))"

text \<open>
  The report after saving, one line per product:
  \<^verbatim>\<open>if product in combined_returns and len(combined_returns[product]) > 0:\<close>
  the number of returns and the number of entries that are not NaN, else ``No data''.
\<close>

definition report_product :: "string \<Rightarrow> run_state \<Rightarrow> outcome" where
  "report_product product st =
     (case combined st product of
        None \<Rightarrow> Normal (print (NoDataLine product) st)
      | Some a \<Rightarrow>
          (case py_len a of
             Inl e \<Rightarrow> Raised e st
           | Inr n_returns \<Rightarrow>
               if 0 < n_returns then
                 (case np_isnan a of
                    Inl e \<Rightarrow> Raised e st
                  | Inr nan_flags \<Rightarrow>
                      Normal (print (TableLine product n_returns (count_not nan_flags)) st))
               else Normal (print (NoDataLine product) st)))"

text \<open>
  The whole function: the loop, then \<^verbatim>\<open>savemat\<close> and the report inside one
  \<^verbatim>\<open>try\<close>, whose handler prints the error and returns \<^verbatim>\<open>False\<close>. \<^verbatim>\<open>save_ok\<close> says
  whether \<^verbatim>\<open>savemat\<close> and the read-back went through.
\<close>

definition combine_returns_tables :: "file_system \<Rightarrow> bool \<Rightarrow> py_error + run_state \<times> bool" where
  "combine_returns_tables fs save_ok =
     (case for_products (returns_product fs) products initial of
        Raised e st \<Rightarrow> Inl e
      | Normal st \<Rightarrow>
          if save_ok then
            (case for_products report_product products st of
               Normal st' \<Rightarrow> Inr (st', True)
             | Raised e st' \<Rightarrow> Inr (print SaveError st', False))
          else Inr (print SaveError st, False))"

section \<open>Example files\<close>

text \<open>
  Two small file systems on which the assemblers are run below. The regime labels of
  \<open>regup\<close> are a row vector with a NaN, followed by a second variable; the file of
  \<open>regdown\<close> is unreadable; the first variable of the file of \<open>nonspin\<close> is a cell
  array; the other files are absent.
\<close>

definition example_labels :: ndarray where
  "example_labels = \<lparr>shape = [1, 3], items = [Num 1, NaN, Num 2], dtype = Float64\<rparr>"

definition example_cells :: ndarray where
  "example_cells = \<lparr>shape = [1, 2], items = [Other, Other], dtype = Object\<rparr>"

definition example_regime_files :: file_system where
  "example_regime_files name =
     (if name = regime_filename ''regup'' then
        Loaded [(''__header__'', Meta), (''__version__'', Meta), (''__globals__'', Meta),
                (''regimeLabels'', Var \<lparr>whole = example_labels, columns = []\<rparr>),
                (''zz'', Var \<lparr>whole = np_empty, columns = []\<rparr>)]
      else if name = regime_filename ''regdown'' then Unreadable
      else if name = regime_filename ''nonspin'' then
        Loaded [(''__header__'', Meta),
                (''info'', Var \<lparr>whole = example_cells, columns = []\<rparr>),
                (''regimeLabels'', Var \<lparr>whole = example_labels, columns = []\<rparr>)]
      else Missing)"

text \<open>
  The returns of \<open>regup\<close> are a structured array with the fields \<open>Time\<close> and \<open>Value\<close>,
  the second a column vector with a NaN; those of \<open>nodalPrices\<close> are a plain row
  vector; the file of \<open>hubPrices\<close> holds no \<open>returnsTable\<close>; the other files are
  absent.
\<close>

definition example_column :: ndarray where
  "example_column = \<lparr>shape = [3, 1], items = [Num (1 / 2), NaN, Num (- 1)], dtype = Float64\<rparr>"

definition example_row :: ndarray where
  "example_row = \<lparr>shape = [1, 2], items = [Num 3, Num 4], dtype = Float64\<rparr>"

definition example_table :: mat_array where
  "example_table =
     \<lparr>whole = \<lparr>shape = [3, 1], items = [Other, Other, Other], dtype = Object\<rparr>,
      columns = [(''Time'', \<lparr>shape = [3, 1], items = [Num 0, Num 1, Num 2], dtype = Float64\<rparr>),
                 (''Value'', example_column)]\<rparr>"

definition example_returns_files :: file_system where
  "example_returns_files name =
     (if name = returns_filename ''regup'' then
        Loaded [(''__header__'', Meta), (''returnsTable'', Var example_table)]
      else if name = returns_filename ''nodalPrices'' then
        Loaded [(''__header__'', Meta),
                (''returnsTable'', Var \<lparr>whole = example_row, columns = []\<rparr>)]
      else if name = returns_filename ''hubPrices'' then
        Loaded [(''__header__'', Meta), (''other'', Var \<lparr>whole = example_row, columns = []\<rparr>)]
      else Missing)"




section \<open>Properties of the Validation Guard\<close>

lemma round_half_even_near: "\<bar>of_int (round_half_even r) - r\<bar> \<le> 1 / 2"
  unfolding round_half_even_def Let_def by (auto simp: abs_le_iff)

lemma round_half_even_of_int: "round_half_even (of_int k) = k"
  by (simp add: round_half_even_def)

lemma round_half_even_mono_one: "1 \<le> r \<Longrightarrow> 1 \<le> round_half_even r"
proof -
  assume "1 \<le> r"
  then have "1 \<le> \<lfloor>r\<rfloor>" by linarith
  then show ?thesis
    unfolding round_half_even_def Let_def by auto
qed

lemma df_int_float: "df_int (Finite (PyFloat x)) = Inr (if 1 < x then round_half_even x else 1)"
  by (simp add: df_int_def py_max_def py_gt_def)

lemma df_int_int: "df_int (Finite (PyInt i)) = Inr (max 1 i)"
  by (simp add: df_int_def py_max_def py_gt_def max_def)

lemma df_int_finite: "df_int (Finite n) = Inr (round_half_even (max 1 (to_real n)))"
proof (cases n)
  case (PyInt i)
  have "max 1 (real_of_int i) = of_int (max 1 i)" by simp
  then show ?thesis
    using PyInt by (simp only: df_int_int to_real.simps round_half_even_of_int)
next
  case (PyFloat x)
  then show ?thesis
    using round_half_even_of_int [of 1] by (simp add: df_int_float max_def)
qed

lemma df_int_not_finite: "df_int NegInf = Inr 1" "df_int NotANumber = Inr 1"
  by (simp_all add: df_int_def py_max_def)

text \<open>
  C1, as the code has it. For every raw tail-weight estimate other than \<open>+inf\<close> (finite:
  negative, zero, fractional or already integral; also \<open>-inf\<close> and \<open>nan\<close>), a value is
  stored; it is an integer (the result type) and at least 1. For a finite estimate \<open>x\<close>
  it is \<open>round (max 1 x)\<close> with Python's rounding, a nearest integer to \<open>max 1 x\<close>; for
  \<open>-inf\<close> and \<open>nan\<close> it is 1.
\<close>

theorem df_int_spec:
  assumes "nu \<noteq> PosInf"
  shows "\<exists>k. df_int nu = Inr k \<and> 1 \<le> k
     \<and> (\<forall>n. nu = Finite n \<longrightarrow>
           k = round_half_even (max 1 (to_real n)) \<and> \<bar>of_int k - max 1 (to_real n)\<bar> \<le> 1 / 2)
     \<and> (nu = NegInf \<or> nu = NotANumber \<longrightarrow> k = 1)"
proof (cases nu)
  case (Finite n)
  have "1 \<le> round_half_even (max 1 (to_real n))"
    by (rule round_half_even_mono_one) simp
  with Finite round_half_even_near [of "max 1 (to_real n)"] show ?thesis
    by (simp add: df_int_finite)
next
  case PosInf
  with assms show ?thesis by simp
next
  case NegInf
  then show ?thesis by (simp add: df_int_not_finite)
next
  case NotANumber
  then show ?thesis by (simp add: df_int_not_finite)
qed

theorem df_int_spec_witness:
  "Finite (PyFloat 2.5) \<noteq> PosInf \<and> df_int (Finite (PyFloat 2.5)) = Inr 2
   \<and> NotANumber \<noteq> PosInf \<and> df_int NotANumber = Inr 1"
proof -
  have r: "round_half_even (max 1 2.5) = 2" by (simp add: round_half_even_def)
  from df_int_spec [of "Finite (PyFloat 2.5)"] r
  have "df_int (Finite (PyFloat 2.5)) = Inr 2" by auto
  moreover from df_int_spec [of NotANumber] have "df_int NotANumber = Inr 1" by auto
  ultimately show ?thesis by simp
qed

text \<open>
  C1, for every estimate, fails: at \<open>+inf\<close> the maximum is \<open>+inf\<close> itself and \<^verbatim>\<open>round\<close>
  raises \<^verbatim>\<open>OverflowError\<close>, so no value is stored.
\<close>

theorem df_int_counterexample: "df_int PosInf = Inl OverflowError"
  by (simp add: df_int_def py_max_def)

lemma df_int_examples:
  "df_int (Finite (PyFloat 2.5)) = Inr 2" "df_int (Finite (PyFloat 3.7)) = Inr 4"
  "df_int (Finite (PyFloat 1.1)) = Inr 1" "df_int (Finite (PyFloat 0.8)) = Inr 1"
  "df_int (Finite (PyFloat 10.9)) = Inr 11" "df_int (Finite (PyFloat 2.0)) = Inr 2"
  "df_int (Finite (PyFloat 3.0)) = Inr 3"
  by (simp_all add: df_int_float round_half_even_def)

lemma df_int_small: "x \<le> 1 \<Longrightarrow> df_int (Finite (PyFloat x)) = Inr 1"
  by (simp add: df_int_float)

text \<open>
  The sampler applies the same rule again to the stored value: that changes nothing.
\<close>

lemma df_int_idempotent: "df_int nu = Inr k \<Longrightarrow> df_int (Finite (PyInt k)) = Inr k"
proof -
  assume k: "df_int nu = Inr k"
  then have "nu \<noteq> PosInf" by (auto simp: df_int_def py_max_def)
  then have "1 \<le> k"
    using k
  proof (cases nu)
    case (Finite n)
    have "1 \<le> round_half_even (max 1 (to_real n))"
      by (rule round_half_even_mono_one) simp
    with Finite k show ?thesis by (simp add: df_int_finite)
  qed (simp_all add: df_int_not_finite)
  then show ?thesis by (simp add: df_int_int)
qed

lemma nSim_min: "nSim n = min 1000 n"
  by (simp add: nSim_def py_min_def py_lt_def min_def)

text \<open>
  C2. For every candidate batch size \<open>n\<close> (non-negative or not) and the cap 1000, the
  sample count is \<open>floor (min 1000 n)\<close>, taken over the reals; the sampler proceeds with
  that count if and only if it is at least 2, and skips otherwise.
\<close>

theorem sampling_gate_spec:
  "nSim n = \<lfloor>min (1000::real) (of_int n)\<rfloor>
   \<and> sampling_gate n = (if 2 \<le> nSim n then Proceed (nSim n) else Skip (nSim n))
   \<and> ((\<exists>k. sampling_gate n = Proceed k) = (2 \<le> nSim n))
   \<and> ((\<exists>k. sampling_gate n = Skip k) = (nSim n < 2))"
proof -
  have "\<lfloor>min (1000::real) (of_int n)\<rfloor> = min 1000 n"
    by (simp add: min_def)
  then show ?thesis
    by (auto simp: nSim_min sampling_gate_def Let_def)
qed

lemma sampling_gate_examples:
  "sampling_gate 0 = Skip 0" "sampling_gate 1 = Skip 1" "sampling_gate 50 = Proceed 50"
  "sampling_gate 1000 = Proceed 1000" "sampling_gate 5000 = Proceed 1000"
  by (simp_all add: sampling_gate_def nSim_min)

section \<open>Properties of the field selection\<close>

lemma py_in_sublist: "py_in sub s = sublist sub s"
  by (induction s) (auto simp: sublist_Cons_right)

lemma first_match_find: "first_match product fs = find (primary_match product) fs"
  by (induction fs) auto

lemma first_match_mem: "first_match product fs = Some f \<Longrightarrow> f \<in> set fs"
  by (induction fs) (auto split: if_splits)

lemma filter_head_mem: "filter P xs = y # ys \<Longrightarrow> y \<in> set xs"
proof -
  assume "filter P xs = y # ys"
  then have "y \<in> set (filter P xs)" by simp
  then show ?thesis by simp
qed

lemma non_time_Timestamp: "\<not> non_time ''Timestamp''"
  by (simp add: non_time_def py_lower_def lower_char_def)

lemma non_time_Time: "\<not> non_time ''Time''"
  by (simp add: non_time_def py_lower_def lower_char_def)

lemma non_time_Nil: "non_time []"
  by (simp add: non_time_def py_lower_def)

text \<open>
  A field the loop passes over is named \<open>Timestamp\<close> or \<open>Time\<close>, so the filter of the
  fallback rejects it too.
\<close>

lemma no_match_time: "\<not> primary_match product g \<Longrightarrow> \<not> non_time g"
  using non_time_Timestamp non_time_Time by (auto simp: primary_match_def)

lemma first_match_split:
  "(\<forall>g\<in>set pre. \<not> primary_match product g) \<Longrightarrow> primary_match product f
   \<Longrightarrow> first_match product (pre @ f # post) = Some f"
  by (induction pre) auto

lemma first_match_None:
  "(\<forall>g\<in>set fs. \<not> primary_match product g) \<Longrightarrow> first_match product fs = None"
  by (induction fs) auto

lemma filter_non_time_split:
  "(\<forall>g\<in>set pre. \<not> primary_match product g) \<Longrightarrow> non_time f
   \<Longrightarrow> filter non_time (pre @ f # post) = f # filter non_time post"
  by (induction pre) (auto dest: no_match_time)

lemma filter_non_time_none:
  "(\<forall>g\<in>set fs. \<not> primary_match product g) \<Longrightarrow> filter non_time fs = []"
  by (induction fs) (auto dest: no_match_time)

text \<open>
  What the code computes: the field selected is the first one, in declared order, whose
  name contains the product name or is neither \<open>Timestamp\<close> nor \<open>Time\<close>; when no field
  is such, it is the first field. The filter on names without \<open>time\<close> and \<open>date\<close> never
  changes the outcome: the names the loop has passed over are \<open>Timestamp\<close> or \<open>Time\<close>,
  which the filter rejects as well.
\<close>

lemma select_field_first_match:
  "(\<forall>pre f post. fs = pre @ f # post \<longrightarrow> (\<forall>g\<in>set pre. \<not> primary_match product g)
        \<longrightarrow> primary_match product f \<longrightarrow> select_field product fs = Inr f)
   \<and> (\<forall>f rest. fs = f # rest \<longrightarrow> (\<forall>g\<in>set fs. \<not> primary_match product g)
        \<longrightarrow> select_field product fs = Inr f)"
proof (intro conjI allI impI)
  fix pre f post
  assume fs: "fs = pre @ f # post" and pre: "\<forall>g\<in>set pre. \<not> primary_match product g"
    and f: "primary_match product f"
  have fm: "first_match product fs = Some f"
    using fs pre f by (simp add: first_match_split)
  show "select_field product fs = Inr f"
  proof (cases f)
    case Nil
    have "non_time f" using Nil non_time_Nil by simp
    then have "filter non_time fs = f # filter non_time post"
      unfolding fs using pre by (rule filter_non_time_split [rotated])
    with fm Nil show ?thesis by (simp add: select_field_def)
  next
    case (Cons c cs)
    with fm show ?thesis by (simp add: select_field_def)
  qed
next
  fix f rest
  assume "fs = f # rest" and "\<forall>g\<in>set fs. \<not> primary_match product g"
  then show "select_field product fs = Inr f"
    using first_match_None [of fs product] filter_non_time_none [of fs product]
    by (simp add: select_field_def)
qed

text \<open>The two examples of the specification, and a record of time fields only.\<close>

lemma select_field_examples:
  "select_field ''nodalPrices'' [''Timestamp'', ''nodalPrices''] = Inr ''nodalPrices''"
  "select_field ''regup'' [''Time'', ''Value''] = Inr ''Value''"
  "select_field ''regup'' [''Time'', ''Timestamp''] = Inr ''Time''"
  by (simp_all add: select_field_def primary_match_def non_time_Time non_time_Timestamp)

text \<open>
  No product of the universe occurs in \<open>Timestamp\<close> or \<open>Time\<close>, and every other name
  passes the second test of the loop: for these products the test on the product name
  decides nothing, and the selection is the same for all of them.
\<close>

lemma primary_match_products:
  "p \<in> set products \<Longrightarrow> primary_match p f = (f \<noteq> ''Timestamp'' \<and> f \<noteq> ''Time'')"
  by (auto simp: products_def primary_match_def)

lemma first_match_products:
  "p \<in> set products \<Longrightarrow> q \<in> set products \<Longrightarrow> first_match p fs = first_match q fs"
  by (induction fs) (simp_all add: primary_match_products)

lemma select_field_products:
  "p \<in> set products \<Longrightarrow> q \<in> set products \<Longrightarrow> select_field p fs = select_field q fs"
  by (simp add: select_field_def first_match_products [of p q])

text \<open>
  C4. The precedence of the specification, (a) a field whose name contains the product
  name, (b) otherwise the first field whose name matches no timestamp or date pattern,
  (c) otherwise the first field, is what the comments of the code announce
  (``Look for the product name or the first non-timestamp field'', then ``Use the first
  field that's not timestamp-related''), and the code misses it: the loop joins (a) and
  a test on the two names \<open>Timestamp\<close> and \<open>Time\<close> by \<^verbatim>\<open>or\<close>, so it stops at the first
  field that is not one of these two. With the fields \<open>[Date, nodalPrices]\<close> and the
  product \<open>nodalPrices\<close> it selects \<open>Date\<close>, a name the filter of (b) counts as a date;
  with \<open>[Value, nodalPrices]\<close> it selects \<open>Value\<close>. The precedence selects
  \<open>nodalPrices\<close> in both.
\<close>

theorem select_field_misses_product:
  "select_field ''nodalPrices'' [''Date'', ''nodalPrices''] = Inr ''Date''
   \<and> spec_select_field ''nodalPrices'' [''Date'', ''nodalPrices''] = Inr ''nodalPrices''
   \<and> \<not> non_time ''Date''
   \<and> select_field ''nodalPrices'' [''Value'', ''nodalPrices''] = Inr ''Value''
   \<and> spec_select_field ''nodalPrices'' [''Value'', ''nodalPrices''] = Inr ''nodalPrices''"
  by (simp add: select_field_def spec_select_field_def primary_match_def non_time_def
      py_lower_def lower_char_def)

lemma loop_ends_iff: "loop_ends product fs r = (r = first_match product fs)"
proof
  show "loop_ends product fs r \<Longrightarrow> r = first_match product fs"
    by (induction rule: loop_ends.induct) auto
next
  show "r = first_match product fs \<Longrightarrow> loop_ends product fs r"
    by (induction fs arbitrary: r) (auto intro: loop_ends.intros)
qed

lemma selects_iff: "selects product fs f = (select_field product fs = Inr f)"
  unfolding selects.simps loop_ends_iff select_field_def
  by (auto split: option.splits list.splits)

text \<open>
  C8. Two runs of the selection on the same product name and the same declared field
  names end with the same field.
\<close>

theorem selection_deterministic:
  assumes "selects product fs f" and "selects product fs g"
  shows "f = g"
  using assms by (simp add: selects_iff)

theorem selection_deterministic_witness:
  "selects ''regup'' [''Time'', ''Value''] ''Value''
   \<and> \<not> selects ''regup'' [''Time'', ''Value''] ''Time''"
proof -
  have s: "selects ''regup'' [''Time'', ''Value''] ''Value''"
    by (simp add: selects_iff select_field_def primary_match_def)
  have "\<not> selects ''regup'' [''Time'', ''Value''] ''Time''"
  proof
    assume "selects ''regup'' [''Time'', ''Value''] ''Time''"
    from selection_deterministic [OF s this] show False by simp
  qed
  with s show ?thesis by simp
qed

lemma select_field_mem:
  assumes "fs \<noteq> []"
  shows "\<exists>f. select_field product fs = Inr f \<and> f \<in> set fs"
  using assms unfolding select_field_def
  by (auto split: option.splits list.splits dest: first_match_mem filter_head_mem)

lemma getfield_defined: "f \<in> set (dtype_names v) \<Longrightarrow> \<exists>c. getfield v f = Inr c"
proof -
  assume "f \<in> set (dtype_names v)"
  then have "f \<in> fst ` set (columns v)" by (simp add: dtype_names_def)
  then have "map_of (columns v) f \<noteq> None" by (simp add: map_of_eq_None_iff)
  then show ?thesis by (auto simp: getfield_def)
qed

text \<open>
  C9. For a structured array, whose list of field names is not empty, the selection
  always ends with a name of that list: indexing the array by it is defined, and the
  series is extracted without an error.
\<close>

theorem select_field_total:
  assumes "dtype_names v \<noteq> []"
  shows "\<exists>f c. select_field product (dtype_names v) = Inr f \<and> f \<in> set (dtype_names v)
           \<and> getfield v f = Inr c \<and> extract_series product v = Inr (flatten c)"
proof -
  from select_field_mem [OF assms] obtain f
    where f: "select_field product (dtype_names v) = Inr f" "f \<in> set (dtype_names v)"
    by blast
  from getfield_defined [OF f(2)] obtain c where c: "getfield v f = Inr c" by blast
  have "extract_series product v = Inr (flatten c)"
    using assms f(1) c by (simp add: extract_series_def)
  with f c show ?thesis by blast
qed

theorem select_field_total_witness:
  "dtype_names \<lparr>whole = np_empty, columns = [(''Time'', np_empty),
       (''Value'', \<lparr>shape = [2, 1], items = [Num 1, NaN], dtype = Float64\<rparr>)]\<rparr> \<noteq> []
   \<and> select_field ''regup'' [''Time'', ''Value''] = Inr ''Value''
   \<and> extract_series ''regup'' \<lparr>whole = np_empty, columns = [(''Time'', np_empty),
              (''Value'', \<lparr>shape = [2, 1], items = [Num 1, NaN], dtype = Float64\<rparr>)]\<rparr>
         = Inr \<lparr>shape = [2], items = [Num 1, NaN], dtype = Float64\<rparr>"
  using select_field_total [of "\<lparr>whole = np_empty, columns = [(''Time'', np_empty),
       (''Value'', \<lparr>shape = [2, 1], items = [Num 1, NaN], dtype = Float64\<rparr>)]\<rparr>" "''regup''"]
  by (auto simp: dtype_names_def getfield_def flatten_def select_field_def primary_match_def)

section \<open>Properties of the loops\<close>

lemma store_print_commute: "print msg (store p a st) = store p a (print msg st)"
  by (simp add: store_def print_def)

lemma combined_store [simp]: "combined (store p a st) = (combined st)(p \<mapsto> a)"
  by (simp add: store_def)

lemma combined_print [simp]: "combined (print msg st) = combined st"
  by (simp add: print_def)

lemma printed_store [simp]: "printed (store p a st) = printed st"
  by (simp add: store_def)

lemma printed_print [simp]: "printed (print msg st) = printed st @ [msg]"
  by (simp add: print_def)

lemma for_products_frame:
  assumes "\<And>p st. p \<in> set ps \<Longrightarrow> body p st = Normal (store p (A p) (print (M p) st))"
  shows "\<exists>st'. for_products body ps st = Normal st'
           \<and> combined st' = (\<lambda>q. if q \<in> set ps then Some (A q) else combined st q)
           \<and> printed st' = printed st @ map M ps"
  using assms
proof (induction ps arbitrary: st)
  case Nil
  then show ?case by simp
next
  case (Cons p ps)
  have step: "body p st = Normal (store p (A p) (print (M p) st))"
    using Cons.prems by simp
  have "\<exists>st'. for_products body ps (store p (A p) (print (M p) st)) = Normal st'
           \<and> combined st' = (\<lambda>q. if q \<in> set ps then Some (A q)
                else combined (store p (A p) (print (M p) st)) q)
           \<and> printed st' = printed (store p (A p) (print (M p) st)) @ map M ps"
    using Cons.prems by (intro Cons.IH) simp
  then obtain st' where st': "for_products body ps (store p (A p) (print (M p) st)) = Normal st'"
     "combined st' = (\<lambda>q. if q \<in> set ps then Some (A q)
                else combined (store p (A p) (print (M p) st)) q)"
     "printed st' = printed (store p (A p) (print (M p) st)) @ map M ps"
    by blast
  have "for_products body (p # ps) st = Normal st'"
    using step st'(1) by simp
  moreover have "combined st' = (\<lambda>q. if q \<in> set (p # ps) then Some (A q) else combined st q)"
    using st'(2) by (auto simp: fun_eq_iff)
  moreover have "printed st' = printed st @ map M (p # ps)"
    using st'(3) by simp
  ultimately show ?case by blast
qed

lemma store_again: "store p b (print msg (store p a st)) = store p b (print msg st)"
  by (simp add: store_def print_def)

text \<open>What one round of the regime loop does, case by case.\<close>

lemma regime_product_Missing:
  "fs (regime_filename p) = Missing \<Longrightarrow>
   regime_product fs p st = Normal (store p np_empty (print (FileNotFound (regime_filename p)) st))"
  by (simp add: regime_product_def)

lemma regime_product_Unreadable:
  "fs (regime_filename p) = Unreadable \<Longrightarrow>
   regime_product fs p st = Normal (store p np_empty (print (ErrorCaught OSError) st))"
  by (simp add: regime_product_def regime_except_def)

lemma regime_product_no_variable:
  "fs (regime_filename p) = Loaded data \<Longrightarrow>
   filter (\<lambda>key. \<not> startswith key ''__'') (map fst data) = [] \<Longrightarrow>
   regime_product fs p st = Normal (store p np_empty (print NoDataVariables st))"
  by (simp add: regime_product_def regime_try_def)

lemma regime_product_numeric:
  "fs (regime_filename p) = Loaded data \<Longrightarrow>
   filter (\<lambda>key. \<not> startswith key ''__'') (map fst data) = k # ks \<Longrightarrow>
   map_of data k = Some (Var v) \<Longrightarrow>
   dtype (squeeze_vector (whole v)) = Float64 \<Longrightarrow>
   shape (squeeze_vector (whole v)) = n # ns \<Longrightarrow>
   regime_product fs p st =
     Normal (store p (squeeze_vector (whole v))
       (print (RegimeStats p n (np_unique (valid_values (squeeze_vector (whole v))))) st))"
  by (simp add: regime_product_def regime_try_def np_isnan_def py_len_def store_print_commute Let_def)

lemma regime_product_not_numeric:
  "fs (regime_filename p) = Loaded data \<Longrightarrow>
   filter (\<lambda>key. \<not> startswith key ''__'') (map fst data) = k # ks \<Longrightarrow>
   map_of data k = Some (Var v) \<Longrightarrow>
   dtype (squeeze_vector (whole v)) = Object \<or> shape (squeeze_vector (whole v)) = [] \<Longrightarrow>
   regime_product fs p st = Normal (store p np_empty (print (ErrorCaught TypeError) st))"
  by (auto simp: regime_product_def regime_try_def regime_except_def np_isnan_def py_len_def
      Let_def store_again split: np_dtype.splits)

lemma regime_product_not_array:
  "fs (regime_filename p) = Loaded data \<Longrightarrow>
   filter (\<lambda>key. \<not> startswith key ''__'') (map fst data) = k # ks \<Longrightarrow>
   map_of data k = Some Meta \<Longrightarrow>
   regime_product fs p st = Normal (store p np_empty (print (ErrorCaught AttributeError) st))"
  by (simp add: regime_product_def regime_try_def regime_except_def Let_def)

lemma first_key_bound:
  assumes "filter P (map fst data) = k # ks"
  shows "\<exists>x. map_of data k = Some x"
proof -
  have "k \<in> set (map fst data)" using assms by (rule filter_head_mem)
  then have "map_of data k \<noteq> None" by (simp add: map_of_eq_None_iff)
  then show ?thesis by blast
qed

lemma regime_product_value:
  "\<exists>a msg. (\<forall>st. regime_product fs p st = Normal (store p a (print msg st)))
     \<and> (a = np_empty \<or> (\<exists>data k v. fs (regime_filename p) = Loaded data \<and> (k, Var v) \<in> set data
            \<and> a = squeeze_vector (whole v)))
     \<and> (\<forall>q n u. msg = RegimeStats q n u \<longrightarrow>
            q = p \<and> py_len a = Inr n \<and> u = np_unique (valid_values a))"
proof (cases "fs (regime_filename p)")
  case Missing
  then have "\<forall>st. regime_product fs p st
      = Normal (store p np_empty (print (FileNotFound (regime_filename p)) st))"
    by (simp add: regime_product_Missing)
  then show ?thesis by blast
next
  case Unreadable
  then have "\<forall>st. regime_product fs p st = Normal (store p np_empty (print (ErrorCaught OSError) st))"
    by (simp add: regime_product_Unreadable)
  then show ?thesis by blast
next
  case (Loaded data)
  show ?thesis
  proof (cases "filter (\<lambda>key. \<not> startswith key ''__'') (map fst data)")
    case Nil
    with Loaded have "\<forall>st. regime_product fs p st = Normal (store p np_empty (print NoDataVariables st))"
      by (simp add: regime_product_no_variable)
    then show ?thesis by blast
  next
    case (Cons k ks)
    from first_key_bound [OF Cons] obtain x where x: "map_of data k = Some x" by blast
    show ?thesis
    proof (cases x)
      case Meta
      with x have "\<forall>st. regime_product fs p st
          = Normal (store p np_empty (print (ErrorCaught AttributeError) st))"
        using regime_product_not_array [where fs = fs and p = p, OF Loaded Cons] by simp
      then show ?thesis by blast
    next
      case (Var v)
      with x have v: "map_of data k = Some (Var v)" by simp
      show ?thesis
      proof (cases "dtype (squeeze_vector (whole v)) = Object \<or> shape (squeeze_vector (whole v)) = []")
        case True
        have "\<forall>st. regime_product fs p st
            = Normal (store p np_empty (print (ErrorCaught TypeError) st))"
          using regime_product_not_numeric [where fs = fs and p = p, OF Loaded Cons v True] by simp
        then show ?thesis by blast
      next
        case False
        then obtain n ns where num: "dtype (squeeze_vector (whole v)) = Float64"
          "shape (squeeze_vector (whole v)) = n # ns"
          by (cases "dtype (squeeze_vector (whole v))"; cases "shape (squeeze_vector (whole v))") auto
        have run: "\<forall>st. regime_product fs p st = Normal (store p (squeeze_vector (whole v))
            (print (RegimeStats p n (np_unique (valid_values (squeeze_vector (whole v))))) st))"
          using regime_product_numeric [where fs = fs and p = p, OF Loaded Cons v num] by simp
        have mem: "(k, Var v) \<in> set data" using v by (rule map_of_SomeD)
        have len: "py_len (squeeze_vector (whole v)) = Inr n"
          using num(2) by (simp add: py_len_def)
        show ?thesis
          by (rule exI [of _ "squeeze_vector (whole v)"],
              rule exI [of _ "RegimeStats p n (np_unique (valid_values (squeeze_vector (whole v))))"])
            (use run mem len Loaded in auto)
      qed
    qed
  qed
qed

lemma regime_product_frame:
  "\<exists>a msg. \<forall>st. regime_product fs p st = Normal (store p a (print msg st))"
  using regime_product_value [of fs p] by blast

lemma store_print_inject:
  "store p a (print msg st) = store p b (print msg' st) \<Longrightarrow> a = b \<and> msg = msg'"
proof -
  assume eq: "store p a (print msg st) = store p b (print msg' st)"
  then have "combined (store p a (print msg st)) p = combined (store p b (print msg' st)) p"
    by simp
  then have "a = b" by simp
  moreover from eq have "printed (store p a (print msg st)) = printed (store p b (print msg' st))"
    by simp
  then have "msg = msg'" by simp
  ultimately show ?thesis by simp
qed

text \<open>
  A loop whose every round stores one array under its product and prints one line, both
  independent of the state, ends normally; the dict then holds, for each product of the
  list, the array of its round.
\<close>

lemma loop_result:
  assumes frame: "\<And>p. \<exists>a msg. \<forall>st. body p st = Normal (store p a (print msg st))"
  shows "\<exists>st. for_products body ps st0 = Normal st
     \<and> dom (combined st) = dom (combined st0) \<union> set ps
     \<and> (\<forall>p\<in>set ps. \<forall>a msg s. body p s = Normal (store p a (print msg s))
           \<longrightarrow> combined st p = Some a \<and> msg \<in> set (printed st))
     \<and> (\<forall>msg\<in>set (printed st). msg \<in> set (printed st0) \<or>
           (\<exists>p\<in>set ps. \<exists>a. \<forall>s. body p s = Normal (store p a (print msg s))))"
proof -
  have "\<forall>p. \<exists>a. \<exists>msg. \<forall>st. body p st = Normal (store p a (print msg st))"
    using frame by blast
  then have "\<exists>A. \<forall>p. \<exists>msg. \<forall>st. body p st = Normal (store p (A p) (print msg st))"
    by (rule choice)
  then obtain A where "\<forall>p. \<exists>msg. \<forall>st. body p st = Normal (store p (A p) (print msg st))"
    by blast
  then have "\<exists>M. \<forall>p. \<forall>st. body p st = Normal (store p (A p) (print (M p) st))"
    by (rule choice)
  then obtain M where AM: "\<And>p st. body p st = Normal (store p (A p) (print (M p) st))"
    by blast
  from for_products_frame [of ps body A M st0] AM
  obtain st where st: "for_products body ps st0 = Normal st"
    "combined st = (\<lambda>q. if q \<in> set ps then Some (A q) else combined st0 q)"
    "printed st = printed st0 @ map M ps"
    by blast
  have "dom (combined st) = dom (combined st0) \<union> set ps"
    using st(2) by (auto simp: dom_def)
  moreover have "\<forall>p\<in>set ps. \<forall>a msg s. body p s = Normal (store p a (print msg s))
           \<longrightarrow> combined st p = Some a \<and> msg \<in> set (printed st)"
  proof (intro ballI allI impI)
    fix p a msg s
    assume p: "p \<in> set ps" and "body p s = Normal (store p a (print msg s))"
    with AM [of p s] have "store p (A p) (print (M p) s) = store p a (print msg s)" by simp
    then have "A p = a \<and> M p = msg" by (rule store_print_inject)
    with p st(2,3) show "combined st p = Some a \<and> msg \<in> set (printed st)" by auto
  qed
  moreover have "\<forall>msg\<in>set (printed st). msg \<in> set (printed st0) \<or>
           (\<exists>p\<in>set ps. \<exists>a. \<forall>s. body p s = Normal (store p a (print msg s)))"
    using st(3) AM by auto
  ultimately show ?thesis using st(1) by blast
qed

text \<open>What one round of the returns loop does, case by case.\<close>

lemma returns_product_Missing:
  "fs (returns_filename p) = Missing \<Longrightarrow>
   returns_product fs p st = Normal (store p np_empty (print (FileNotFound (returns_filename p)) st))"
  by (simp add: returns_product_def)

lemma returns_product_Unreadable:
  "fs (returns_filename p) = Unreadable \<Longrightarrow>
   returns_product fs p st = Normal (store p np_empty (print (ErrorCaught OSError) st))"
  by (simp add: returns_product_def returns_except_def)

lemma table_key:
  "(''returnsTable'' \<in> set (filter (\<lambda>key. \<not> startswith key ''__'') (map fst data)))
     = (''returnsTable'' \<in> fst ` set data)"
  by (simp add: startswith_def)

lemma returns_product_no_table:
  "fs (returns_filename p) = Loaded data \<Longrightarrow>
   ''returnsTable'' \<notin> fst ` set data \<Longrightarrow>
   returns_product fs p st = Normal (store p np_empty (print NoReturnsTable st))"
  by (simp add: returns_product_def returns_try_def table_key del: set_filter set_map)

lemma returns_product_not_array:
  "fs (returns_filename p) = Loaded data \<Longrightarrow>
   ''returnsTable'' \<in> fst ` set data \<Longrightarrow>
   map_of data ''returnsTable'' = Some Meta \<Longrightarrow>
   returns_product fs p st = Normal (store p np_empty (print (ErrorCaught AttributeError) st))"
  by (simp add: returns_product_def returns_try_def returns_except_def table_key del: set_filter set_map)

lemma extract_series_flat:
  "\<exists>c. extract_series p v = Inr (flatten c) \<and> (c = whole v \<or> c \<in> snd ` set (columns v))"
proof (cases "dtype_names v = []")
  case True
  then have "extract_series p v = Inr (flatten (whole v))" by (simp add: extract_series_def)
  then show ?thesis by blast
next
  case False
  from select_field_mem [OF False] obtain f
    where f: "select_field p (dtype_names v) = Inr f" "f \<in> set (dtype_names v)"
    by blast
  from getfield_defined [OF f(2)] obtain c where c: "getfield v f = Inr c" by blast
  then have "map_of (columns v) f = Some c"
    by (simp add: getfield_def split: option.splits)
  then have "(f, c) \<in> set (columns v)" by (rule map_of_SomeD)
  then have "c \<in> snd ` set (columns v)" by force
  moreover from False f(1) c have "extract_series p v = Inr (flatten c)"
    by (simp add: extract_series_def)
  ultimately show ?thesis by blast
qed

lemma returns_product_table:
  "fs (returns_filename p) = Loaded data \<Longrightarrow>
   ''returnsTable'' \<in> fst ` set data \<Longrightarrow>
   map_of data ''returnsTable'' = Some (Var v) \<Longrightarrow>
   extract_series p v = Inr (flatten c) \<Longrightarrow>
   returns_product fs p st =
     Normal (store p (flatten c) (print (ReturnsLoaded (prod_list (shape c))) st))"
  by (simp add: returns_product_def returns_try_def py_len_def flatten_def Let_def
      store_print_commute table_key del: set_filter set_map)

lemma returns_product_value:
  "\<exists>a msg. (\<forall>st. returns_product fs p st = Normal (store p a (print msg st)))
     \<and> (a = np_empty \<or> (\<exists>data v c. fs (returns_filename p) = Loaded data
            \<and> (''returnsTable'', Var v) \<in> set data
            \<and> (c = whole v \<or> c \<in> snd ` set (columns v)) \<and> a = flatten c))
     \<and> (\<exists>n. shape a = [n])
     \<and> (\<forall>q n v. msg \<noteq> TableLine q n v)"
proof (cases "fs (returns_filename p)")
  case Missing
  then have "\<forall>st. returns_product fs p st
      = Normal (store p np_empty (print (FileNotFound (returns_filename p)) st))"
    by (simp add: returns_product_Missing)
  then show ?thesis
    by (intro exI [of _ np_empty] exI [of _ "FileNotFound (returns_filename p)"]) (simp add: np_empty_def)
next
  case Unreadable
  then have "\<forall>st. returns_product fs p st = Normal (store p np_empty (print (ErrorCaught OSError) st))"
    by (simp add: returns_product_Unreadable)
  then show ?thesis
    by (intro exI [of _ np_empty] exI [of _ "ErrorCaught OSError"]) (simp add: np_empty_def)
next
  case (Loaded data)
  show ?thesis
  proof (cases "''returnsTable'' \<in> fst ` set data")
    case False
    with Loaded have "\<forall>st. returns_product fs p st = Normal (store p np_empty (print NoReturnsTable st))"
      by (simp add: returns_product_no_table)
    then show ?thesis
      by (intro exI [of _ np_empty] exI [of _ "NoReturnsTable"]) (simp add: np_empty_def)
  next
    case True
    then have "map_of data ''returnsTable'' \<noteq> None" by (simp add: map_of_eq_None_iff)
    then obtain x where x: "map_of data ''returnsTable'' = Some x" by blast
    show ?thesis
    proof (cases x)
      case Meta
      with x have "\<forall>st. returns_product fs p st
          = Normal (store p np_empty (print (ErrorCaught AttributeError) st))"
        using returns_product_not_array [where fs = fs and p = p, OF Loaded True] by simp
      then show ?thesis
        by (intro exI [of _ np_empty] exI [of _ "ErrorCaught AttributeError"]) (simp add: np_empty_def)
    next
      case (Var v)
      with x have v: "map_of data ''returnsTable'' = Some (Var v)" by simp
      obtain c where c: "extract_series p v = Inr (flatten c)"
        "c = whole v \<or> c \<in> snd ` set (columns v)"
        using extract_series_flat by blast
      have run: "\<forall>st. returns_product fs p st
          = Normal (store p (flatten c) (print (ReturnsLoaded (prod_list (shape c))) st))"
        using returns_product_table [where fs = fs and p = p, OF Loaded True v c(1)] by simp
      have mem: "(''returnsTable'', Var v) \<in> set data" using v by (rule map_of_SomeD)
      have sh: "shape (flatten c) = [prod_list (shape c)]" by (simp add: flatten_def)
      show ?thesis
        by (rule exI [of _ "flatten c"], rule exI [of _ "ReturnsLoaded (prod_list (shape c))"])
          (use run mem sh c(2) Loaded in auto)
    qed
  qed
qed

lemma returns_product_frame:
  "\<exists>a msg. \<forall>st. returns_product fs p st = Normal (store p a (print msg st))"
  using returns_product_value [of fs p] by blast

text \<open>The report loop leaves the dict alone, and every line it prints is right.\<close>

lemma report_product_combined:
  "report_product p st = Normal st' \<or> report_product p st = Raised e st'
   \<Longrightarrow> combined st' = combined st"
  unfolding report_product_def
  by (auto split: option.splits sum.splits if_splits)

lemma report_product_printed:
  "report_product p st = Normal st' \<or> report_product p st = Raised e st' \<Longrightarrow>
   \<exists>ls. printed st' = printed st @ ls \<and>
     (\<forall>q n v. TableLine q n v \<in> set ls \<longrightarrow>
        q = p \<and> (\<exists>a. combined st p = Some a \<and> py_len a = Inr n \<and> 0 < n \<and> dtype a = Float64
           \<and> v = length (filter (\<lambda>e. e \<noteq> NaN) (items a))))"
  unfolding report_product_def
  by (auto simp: np_isnan_def count_not_def filter_map comp_def
      split: option.splits sum.splits if_splits np_dtype.splits)

lemma report_loop_sound:
  "for_products report_product ps st = Normal st' \<or> for_products report_product ps st = Raised e st'
   \<Longrightarrow> combined st' = combined st \<and>
   (\<exists>ls. printed st' = printed st @ ls \<and>
     (\<forall>q n v. TableLine q n v \<in> set ls \<longrightarrow>
        q \<in> set ps \<and> (\<exists>a. combined st q = Some a \<and> py_len a = Inr n \<and> 0 < n \<and> dtype a = Float64
           \<and> v = length (filter (\<lambda>e. e \<noteq> NaN) (items a)))))"
proof (induction ps arbitrary: st)
  case Nil
  then show ?case by simp
next
  case (Cons p ps)
  show ?case
  proof (cases "report_product p st")
    case (Raised e1 st1)
    with Cons.prems have st1: "st' = st1" by auto
    from Raised have "report_product p st = Normal st1 \<or> report_product p st = Raised e1 st1" by simp
    from report_product_combined [OF this] report_product_printed [OF this]
    show ?thesis unfolding st1 by fastforce
  next
    case (Normal st1)
    then have r: "report_product p st = Normal st1 \<or> report_product p st = Raised e st1" by simp
    from Normal Cons.prems
    have "for_products report_product ps st1 = Normal st' \<or> for_products report_product ps st1 = Raised e st'"
      by simp
    from Cons.IH [OF this] obtain ls where ih: "combined st' = combined st1"
      "printed st' = printed st1 @ ls"
      "\<forall>q n v. TableLine q n v \<in> set ls \<longrightarrow>
        q \<in> set ps \<and> (\<exists>a. combined st1 q = Some a \<and> py_len a = Inr n \<and> 0 < n \<and> dtype a = Float64
           \<and> v = length (filter (\<lambda>e. e \<noteq> NaN) (items a)))"
      by blast
    from report_product_printed [OF r] obtain l1 where l1: "printed st1 = printed st @ l1"
      "\<forall>q n v. TableLine q n v \<in> set l1 \<longrightarrow>
        q = p \<and> (\<exists>a. combined st p = Some a \<and> py_len a = Inr n \<and> 0 < n \<and> dtype a = Float64
           \<and> v = length (filter (\<lambda>e. e \<noteq> NaN) (items a)))"
      by blast
    have c1: "combined st1 = combined st" using report_product_combined [OF r] .
    have pr: "printed st' = printed st @ (l1 @ ls)" using ih(2) l1(1) by simp
    have good: "\<forall>q n v. TableLine q n v \<in> set (l1 @ ls) \<longrightarrow>
        q \<in> set (p # ps) \<and> (\<exists>a. combined st q = Some a \<and> py_len a = Inr n \<and> 0 < n \<and> dtype a = Float64
           \<and> v = length (filter (\<lambda>e. e \<noteq> NaN) (items a)))"
    proof (intro allI impI)
      fix q n v
      assume "TableLine q n v \<in> set (l1 @ ls)"
      then consider "TableLine q n v \<in> set l1" | "TableLine q n v \<in> set ls" by auto
      then show "q \<in> set (p # ps) \<and> (\<exists>a. combined st q = Some a \<and> py_len a = Inr n \<and> 0 < n
           \<and> dtype a = Float64 \<and> v = length (filter (\<lambda>e. e \<noteq> NaN) (items a)))"
      proof cases
        case 1
        with l1(2) have "q = p \<and> (\<exists>a. combined st p = Some a \<and> py_len a = Inr n \<and> 0 < n
           \<and> dtype a = Float64 \<and> v = length (filter (\<lambda>e. e \<noteq> NaN) (items a)))"
          by blast
        then show ?thesis by simp
      next
        case 2
        with ih(3) have "q \<in> set ps \<and> (\<exists>a. combined st1 q = Some a \<and> py_len a = Inr n \<and> 0 < n
           \<and> dtype a = Float64 \<and> v = length (filter (\<lambda>e. e \<noteq> NaN) (items a)))"
          by blast
        then show ?thesis by (simp add: c1)
      qed
    qed
    have cc: "combined st' = combined st" using ih(1) c1 by simp
    show ?thesis
      by (intro conjI exI [of _ "l1 @ ls"]) (rule cc, rule pr, rule good)
  qed
qed

lemma report_product_line:
  "combined st p = Some a \<Longrightarrow> shape a = n # ns \<Longrightarrow> dtype a = Float64 \<Longrightarrow>
   report_product p st = Normal (print (if 0 < n
      then TableLine p n (length (filter (\<lambda>e. e \<noteq> NaN) (items a))) else NoDataLine p) st)"
  by (simp add: report_product_def py_len_def np_isnan_def count_not_def filter_map comp_def)

lemma report_loop_complete:
  assumes "\<forall>p\<in>set ps. \<exists>a n. combined st p = Some a \<and> shape a = [n] \<and> dtype a = Float64"
  shows "\<exists>st'. for_products report_product ps st = Normal st'
     \<and> set (printed st) \<subseteq> set (printed st')
     \<and> (\<forall>p\<in>set ps. \<forall>a n. combined st p = Some a \<longrightarrow> py_len a = Inr n \<longrightarrow> 0 < n \<longrightarrow>
           TableLine p n (length (filter (\<lambda>e. e \<noteq> NaN) (items a))) \<in> set (printed st'))"
  using assms
proof (induction ps arbitrary: st)
  case Nil
  then show ?case by simp
next
  case (Cons p ps)
  from Cons.prems obtain a n where a: "combined st p = Some a" "shape a = [n]" "dtype a = Float64"
    by auto
  define line where "line = (if 0 < n
      then TableLine p n (length (filter (\<lambda>e. e \<noteq> NaN) (items a))) else NoDataLine p)"
  have step: "report_product p st = Normal (print line st)"
    unfolding line_def using a by (rule report_product_line)
  have "\<forall>q\<in>set ps. \<exists>a n. combined (print line st) q = Some a \<and> shape a = [n] \<and> dtype a = Float64"
    using Cons.prems by simp
  from Cons.IH [OF this] obtain st' where st':
    "for_products report_product ps (print line st) = Normal st'"
    "set (printed (print line st)) \<subseteq> set (printed st')"
    "\<forall>q\<in>set ps. \<forall>a n. combined (print line st) q = Some a \<longrightarrow> py_len a = Inr n \<longrightarrow> 0 < n \<longrightarrow>
           TableLine q n (length (filter (\<lambda>e. e \<noteq> NaN) (items a))) \<in> set (printed st')"
    by blast
  have run: "for_products report_product (p # ps) st = Normal st'"
    using step st'(1) by simp
  have sub: "set (printed st) \<subseteq> set (printed st')" and line: "line \<in> set (printed st')"
    using st'(2) by auto
  have all: "\<forall>q\<in>set (p # ps). \<forall>b m. combined st q = Some b \<longrightarrow> py_len b = Inr m \<longrightarrow> 0 < m \<longrightarrow>
           TableLine q m (length (filter (\<lambda>e. e \<noteq> NaN) (items b))) \<in> set (printed st')"
  proof (intro ballI allI impI)
    fix q b m
    assume q: "q \<in> set (p # ps)" and b: "combined st q = Some b" "py_len b = Inr m" "0 < m"
    show "TableLine q m (length (filter (\<lambda>e. e \<noteq> NaN) (items b))) \<in> set (printed st')"
    proof (cases "q = p")
      case True
      with a b have "b = a" "m = n" by (simp_all add: py_len_def)
      with line b(3) True show ?thesis by (simp add: line_def)
    next
      case False
      with q have "q \<in> set ps" by simp
      with st'(3) b show ?thesis by simp
    qed
  qed
  show ?case
    by (intro exI [of _ st'] conjI) (rule run, rule sub, rule all)
qed

section \<open>Properties of the two assemblers\<close>

lemma regime_run:
  "\<exists>st. combine_regime_labels fs ok = Inr (st, ok) \<and> dom (combined st) = set products
     \<and> (\<forall>p\<in>set products. \<forall>a msg s. regime_product fs p s = Normal (store p a (print msg s))
           \<longrightarrow> combined st p = Some a \<and> msg \<in> set (printed st))
     \<and> (\<forall>msg\<in>set (printed st). msg = SaveError \<or>
           (\<exists>p\<in>set products. \<exists>a. \<forall>s. regime_product fs p s = Normal (store p a (print msg s))))"
proof -
  from loop_result [of "regime_product fs" products initial, OF regime_product_frame]
  obtain st where st: "for_products (regime_product fs) products initial = Normal st"
    "dom (combined st) = dom (combined initial) \<union> set products"
    "\<forall>p\<in>set products. \<forall>a msg s. regime_product fs p s = Normal (store p a (print msg s))
           \<longrightarrow> combined st p = Some a \<and> msg \<in> set (printed st)"
    "\<forall>msg\<in>set (printed st). msg \<in> set (printed initial) \<or>
           (\<exists>p\<in>set products. \<exists>a. \<forall>s. regime_product fs p s = Normal (store p a (print msg s)))"
    by blast
  have d: "dom (combined st) = set products" using st(2) by (simp add: initial_def)
  have m: "\<forall>msg\<in>set (printed st).
           (\<exists>p\<in>set products. \<exists>a. \<forall>s. regime_product fs p s = Normal (store p a (print msg s)))"
    using st(4) by (simp add: initial_def)
  show ?thesis
  proof (cases ok)
    case True
    then have "combine_regime_labels fs ok = Inr (st, ok)"
      using st(1) by (simp add: combine_regime_labels_def)
    with d st(3) m show ?thesis by blast
  next
    case False
    then have "combine_regime_labels fs ok = Inr (print SaveError st, ok)"
      using st(1) by (simp add: combine_regime_labels_def)
    moreover have "dom (combined (print SaveError st)) = set products" using d by simp
    moreover have "\<forall>p\<in>set products. \<forall>a msg s. regime_product fs p s = Normal (store p a (print msg s))
           \<longrightarrow> combined (print SaveError st) p = Some a \<and> msg \<in> set (printed (print SaveError st))"
      using st(3) by simp
    moreover have "\<forall>msg\<in>set (printed (print SaveError st)). msg = SaveError \<or>
           (\<exists>p\<in>set products. \<exists>a. \<forall>s. regime_product fs p s = Normal (store p a (print msg s)))"
      using m by simp
    ultimately show ?thesis by blast
  qed
qed

lemma returns_load_no_table_line:
  assumes "\<forall>s. returns_product fs p s = Normal (store p a (print msg s))"
  shows "msg \<noteq> TableLine q n v"
proof -
  from returns_product_value [of fs p] obtain a' msg'
    where r: "\<forall>st. returns_product fs p st = Normal (store p a' (print msg' st))"
      and nt: "\<forall>q n v. msg' \<noteq> TableLine q n v"
    by blast
  from assms r have "store p a (print msg initial) = store p a' (print msg' initial)"
    by (metis outcome.inject(1))
  then have "msg = msg'" using store_print_inject by blast
  with nt show ?thesis by simp
qed

lemma returns_stored_flat:
  assumes "\<forall>s. returns_product fs p s = Normal (store p a (print msg s))"
  shows "\<exists>n. shape a = [n]"
proof -
  from returns_product_value [of fs p] obtain a' msg'
    where r: "\<forall>st. returns_product fs p st = Normal (store p a' (print msg' st))"
      and sh: "\<exists>n. shape a' = [n]"
    by blast
  from assms r have "store p a (print msg initial) = store p a' (print msg' initial)"
    by (metis outcome.inject(1))
  then have "a = a'" using store_print_inject by blast
  with sh show ?thesis by simp
qed

lemma returns_run:
  "\<exists>st b. combine_returns_tables fs ok = Inr (st, b) \<and> dom (combined st) = set products
     \<and> (\<forall>p\<in>set products. \<forall>a msg s. returns_product fs p s = Normal (store p a (print msg s))
           \<longrightarrow> combined st p = Some a)
     \<and> (\<forall>q n v. TableLine q n v \<in> set (printed st) \<longrightarrow>
           q \<in> set products \<and> (\<exists>a. combined st q = Some a \<and> py_len a = Inr n \<and> 0 < n
              \<and> dtype a = Float64 \<and> v = length (filter (\<lambda>e. e \<noteq> NaN) (items a))))
     \<and> (ok \<longrightarrow> (\<forall>p a. combined st p = Some a \<longrightarrow> dtype a = Float64) \<longrightarrow>
           b \<and> (\<forall>p\<in>set products. \<forall>a n. combined st p = Some a \<longrightarrow> py_len a = Inr n \<longrightarrow> 0 < n
              \<longrightarrow> TableLine p n (length (filter (\<lambda>e. e \<noteq> NaN) (items a))) \<in> set (printed st)))"
proof -
  let ?good = "\<lambda>st q n v. q \<in> set products \<and> (\<exists>a. combined st q = Some a \<and> py_len a = Inr n \<and> 0 < n
              \<and> dtype a = Float64 \<and> v = length (filter (\<lambda>e. e \<noteq> NaN) (items a)))"
  let ?full = "\<lambda>st. \<forall>p\<in>set products. \<forall>a n. combined st p = Some a \<longrightarrow> py_len a = Inr n \<longrightarrow> 0 < n
              \<longrightarrow> TableLine p n (length (filter (\<lambda>e. e \<noteq> NaN) (items a))) \<in> set (printed st)"
  from loop_result [of "returns_product fs" products initial, OF returns_product_frame]
  obtain st1 where st1: "for_products (returns_product fs) products initial = Normal st1"
    "dom (combined st1) = dom (combined initial) \<union> set products"
    "\<forall>p\<in>set products. \<forall>a msg s. returns_product fs p s = Normal (store p a (print msg s))
           \<longrightarrow> combined st1 p = Some a \<and> msg \<in> set (printed st1)"
    "\<forall>msg\<in>set (printed st1). msg \<in> set (printed initial) \<or>
           (\<exists>p\<in>set products. \<exists>a. \<forall>s. returns_product fs p s = Normal (store p a (print msg s)))"
    by blast
  have d: "dom (combined st1) = set products" using st1(2) by (simp add: initial_def)
  have e: "\<forall>p\<in>set products. \<forall>a msg s. returns_product fs p s = Normal (store p a (print msg s))
           \<longrightarrow> combined st1 p = Some a"
    using st1(3) by blast
  have nt: "TableLine q n v \<notin> set (printed st1)" for q n v
  proof
    assume "TableLine q n v \<in> set (printed st1)"
    with st1(4) obtain p a where "\<forall>s. returns_product fs p s = Normal (store p a (print (TableLine q n v) s))"
      by (auto simp: initial_def)
    from returns_load_no_table_line [OF this, of q n v] show False by simp
  qed
  have flat: "\<exists>a n. combined st1 p = Some a \<and> shape a = [n]" if "p \<in> set products" for p
  proof -
    from returns_product_frame [of fs p] obtain a msg
      where r: "\<forall>s. returns_product fs p s = Normal (store p a (print msg s))" by blast
    from returns_stored_flat [OF r] obtain n where "shape a = [n]" by blast
    moreover from e that r have "combined st1 p = Some a" by blast
    ultimately show ?thesis by blast
  qed
  show ?thesis
  proof (cases ok)
    case False
    then have run: "combine_returns_tables fs ok = Inr (print SaveError st1, False)"
      using st1(1) by (simp add: combine_returns_tables_def)
    have sound: "\<forall>q n v. TableLine q n v \<in> set (printed (print SaveError st1))
        \<longrightarrow> ?good (print SaveError st1) q n v"
      using nt by simp
    show ?thesis
      by (intro exI [of _ "print SaveError st1"] exI [of _ False] conjI)
        (use run d e sound False in simp_all)
  next
    case True
    show ?thesis
    proof (cases "for_products report_product products st1")
      case (Normal st2)
      then have run: "combine_returns_tables fs ok = Inr (st2, True)"
        using st1(1) True by (simp add: combine_returns_tables_def)
      from Normal have "for_products report_product products st1 = Normal st2
          \<or> for_products report_product products st1 = Raised TypeError st2" by simp
      from report_loop_sound [OF this] obtain ls where s: "combined st2 = combined st1"
        "printed st2 = printed st1 @ ls"
        "\<forall>q n v. TableLine q n v \<in> set ls \<longrightarrow>
          q \<in> set products \<and> (\<exists>a. combined st1 q = Some a \<and> py_len a = Inr n \<and> 0 < n \<and> dtype a = Float64
             \<and> v = length (filter (\<lambda>e. e \<noteq> NaN) (items a)))"
        by blast
      have sound: "\<forall>q n v. TableLine q n v \<in> set (printed st2) \<longrightarrow> ?good st2 q n v"
        using s nt by auto
      have full: "?full st2" if num: "\<forall>p a. combined st2 p = Some a \<longrightarrow> dtype a = Float64"
      proof -
        have "\<forall>p\<in>set products. \<exists>a n. combined st1 p = Some a \<and> shape a = [n] \<and> dtype a = Float64"
          using flat num s(1) by metis
        from report_loop_complete [OF this] Normal
        have "\<forall>p\<in>set products. \<forall>a n. combined st1 p = Some a \<longrightarrow> py_len a = Inr n \<longrightarrow> 0 < n \<longrightarrow>
           TableLine p n (length (filter (\<lambda>e. e \<noteq> NaN) (items a))) \<in> set (printed st2)"
          by auto
        then show ?thesis by (simp add: s(1))
      qed
      show ?thesis
        by (intro exI [of _ st2] exI [of _ True] conjI)
          (use run d e s(1) sound full in simp_all)
    next
      case (Raised err st2)
      then have run: "combine_returns_tables fs ok = Inr (print SaveError st2, False)"
        using st1(1) True by (simp add: combine_returns_tables_def)
      from Raised have "for_products report_product products st1 = Normal st2
          \<or> for_products report_product products st1 = Raised err st2" by simp
      from report_loop_sound [OF this] obtain ls where s: "combined st2 = combined st1"
        "printed st2 = printed st1 @ ls"
        "\<forall>q n v. TableLine q n v \<in> set ls \<longrightarrow>
          q \<in> set products \<and> (\<exists>a. combined st1 q = Some a \<and> py_len a = Inr n \<and> 0 < n \<and> dtype a = Float64
             \<and> v = length (filter (\<lambda>e. e \<noteq> NaN) (items a)))"
        by blast
      have sound: "\<forall>q n v. TableLine q n v \<in> set (printed (print SaveError st2))
           \<longrightarrow> ?good (print SaveError st2) q n v"
        using s nt by auto
      have never: "\<not> (\<forall>p a. combined st2 p = Some a \<longrightarrow> dtype a = Float64)"
      proof
        assume num: "\<forall>p a. combined st2 p = Some a \<longrightarrow> dtype a = Float64"
        have "\<forall>p\<in>set products. \<exists>a n. combined st1 p = Some a \<and> shape a = [n] \<and> dtype a = Float64"
          using flat num s(1) by metis
        from report_loop_complete [OF this] Raised show False by auto
      qed
      show ?thesis
        by (intro exI [of _ "print SaveError st2"] exI [of _ False] conjI)
          (use run d e s(1) sound never in simp_all)
    qed
  qed
qed

text \<open>The two example runs, evaluated.\<close>

lemmas run_defs = combine_regime_labels_def combine_returns_tables_def products_def initial_def
  regime_product_def regime_try_def regime_except_def regime_filename_def
  returns_product_def returns_try_def returns_except_def returns_filename_def report_product_def
  extract_series_def select_field_def primary_match_def dtype_names_def getfield_def
  store_def print_def startswith_def squeeze_vector_def ndim_def flatten_def np_isnan_def
  py_len_def np_empty_def count_not_def valid_values_def np_unique_def Let_def

lemma example_regime_run:
  "case combine_regime_labels example_regime_files True of
     Inl e \<Rightarrow> False
   | Inr (st, b) \<Rightarrow> b
       \<and> combined st ''regup'' = Some \<lparr>shape = [3], items = [Num 1, NaN, Num 2], dtype = Float64\<rparr>
       \<and> combined st ''regdown'' = Some np_empty
       \<and> combined st ''nonspin'' = Some np_empty
       \<and> combined st ''nodalPrices'' = Some np_empty
       \<and> RegimeStats ''regup'' 3 [1, 2] \<in> set (printed st)"
  by (simp add: run_defs example_regime_files_def example_labels_def example_cells_def)

lemma example_returns_run:
  "case combine_returns_tables example_returns_files True of
     Inl e \<Rightarrow> False
   | Inr (st, b) \<Rightarrow> b
       \<and> combined st ''regup'' = Some \<lparr>shape = [3], items = [Num (1 / 2), NaN, Num (- 1)], dtype = Float64\<rparr>
       \<and> combined st ''nodalPrices'' = Some \<lparr>shape = [2], items = [Num 3, Num 4], dtype = Float64\<rparr>
       \<and> combined st ''hubPrices'' = Some np_empty
       \<and> combined st ''nonspin'' = Some np_empty
       \<and> TableLine ''regup'' 3 2 \<in> set (printed st)
       \<and> (\<forall>p a. combined st p = Some a \<longrightarrow> dtype a = Float64)"
  by (simp add: run_defs example_returns_files_def example_table_def example_column_def example_row_def)

text \<open>
  C3. Whatever the files are (present, absent, unreadable, without a data variable),
  both assemblers return, and the dict they have built holds exactly the products of the
  universe as keys; the value of a product is the empty array or an array of its file
  (flattened where the code flattens).
\<close>

theorem every_product_present:
  "(\<exists>st. combine_regime_labels fs ok = Inr (st, ok) \<and> dom (combined st) = set products
      \<and> (\<forall>p\<in>set products. combined st p = Some np_empty \<or>
            (\<exists>data k v. fs (regime_filename p) = Loaded data \<and> (k, Var v) \<in> set data
               \<and> combined st p = Some (squeeze_vector (whole v)))))
   \<and> (\<exists>st b. combine_returns_tables fs ok = Inr (st, b) \<and> dom (combined st) = set products
      \<and> (\<forall>p\<in>set products. combined st p = Some np_empty \<or>
            (\<exists>data v c. fs (returns_filename p) = Loaded data
               \<and> (''returnsTable'', Var v) \<in> set data
               \<and> (c = whole v \<or> c \<in> snd ` set (columns v))
               \<and> combined st p = Some (flatten c))))"
proof
  from regime_run [of fs ok] obtain st where st: "combine_regime_labels fs ok = Inr (st, ok)"
    "dom (combined st) = set products"
    "\<forall>p\<in>set products. \<forall>a msg s. regime_product fs p s = Normal (store p a (print msg s))
           \<longrightarrow> combined st p = Some a \<and> msg \<in> set (printed st)"
    by blast
  have "\<forall>p\<in>set products. combined st p = Some np_empty \<or>
            (\<exists>data k v. fs (regime_filename p) = Loaded data \<and> (k, Var v) \<in> set data
               \<and> combined st p = Some (squeeze_vector (whole v)))"
  proof
    fix p assume p: "p \<in> set products"
    from regime_product_value [of fs p] obtain a msg
      where r: "\<forall>st. regime_product fs p st = Normal (store p a (print msg st))"
        and a: "a = np_empty \<or> (\<exists>data k v. fs (regime_filename p) = Loaded data
            \<and> (k, Var v) \<in> set data \<and> a = squeeze_vector (whole v))"
      by blast
    from st(3) p r have "combined st p = Some a" by blast
    with a show "combined st p = Some np_empty \<or>
            (\<exists>data k v. fs (regime_filename p) = Loaded data \<and> (k, Var v) \<in> set data
               \<and> combined st p = Some (squeeze_vector (whole v)))"
      by auto
  qed
  with st(1,2) show "\<exists>st. combine_regime_labels fs ok = Inr (st, ok) \<and> dom (combined st) = set products
      \<and> (\<forall>p\<in>set products. combined st p = Some np_empty \<or>
            (\<exists>data k v. fs (regime_filename p) = Loaded data \<and> (k, Var v) \<in> set data
               \<and> combined st p = Some (squeeze_vector (whole v))))"
    by blast
next
  from returns_run [of fs ok] obtain st b where st: "combine_returns_tables fs ok = Inr (st, b)"
    "dom (combined st) = set products"
    "\<forall>p\<in>set products. \<forall>a msg s. returns_product fs p s = Normal (store p a (print msg s))
           \<longrightarrow> combined st p = Some a"
    by blast
  have "\<forall>p\<in>set products. combined st p = Some np_empty \<or>
            (\<exists>data v c. fs (returns_filename p) = Loaded data
               \<and> (''returnsTable'', Var v) \<in> set data
               \<and> (c = whole v \<or> c \<in> snd ` set (columns v))
               \<and> combined st p = Some (flatten c))"
  proof
    fix p assume p: "p \<in> set products"
    from returns_product_value [of fs p] obtain a msg
      where r: "\<forall>st. returns_product fs p st = Normal (store p a (print msg st))"
        and a: "a = np_empty \<or> (\<exists>data v c. fs (returns_filename p) = Loaded data
            \<and> (''returnsTable'', Var v) \<in> set data
            \<and> (c = whole v \<or> c \<in> snd ` set (columns v)) \<and> a = flatten c)"
      by blast
    from st(3) p r have "combined st p = Some a" by blast
    with a show "combined st p = Some np_empty \<or>
            (\<exists>data v c. fs (returns_filename p) = Loaded data
               \<and> (''returnsTable'', Var v) \<in> set data
               \<and> (c = whole v \<or> c \<in> snd ` set (columns v))
               \<and> combined st p = Some (flatten c))"
      by auto
  qed
  with st(1,2) show "\<exists>st b. combine_returns_tables fs ok = Inr (st, b) \<and> dom (combined st) = set products
      \<and> (\<forall>p\<in>set products. combined st p = Some np_empty \<or>
            (\<exists>data v c. fs (returns_filename p) = Loaded data
               \<and> (''returnsTable'', Var v) \<in> set data
               \<and> (c = whole v \<or> c \<in> snd ` set (columns v))
               \<and> combined st p = Some (flatten c)))"
    by blast
qed

theorem every_product_present_witness:
  "''regup'' \<in> set products \<and> ''nonspin'' \<in> set products
   \<and> (\<exists>st. combine_regime_labels example_regime_files True = Inr (st, True)
         \<and> dom (combined st) = set products
         \<and> combined st ''regup'' = Some \<lparr>shape = [3], items = [Num 1, NaN, Num 2], dtype = Float64\<rparr>
         \<and> combined st ''nonspin'' = Some np_empty)
   \<and> (\<exists>st b. combine_returns_tables example_returns_files True = Inr (st, b)
         \<and> dom (combined st) = set products
         \<and> combined st ''regup''
             = Some \<lparr>shape = [3], items = [Num (1 / 2), NaN, Num (- 1)], dtype = Float64\<rparr>
         \<and> combined st ''nonspin'' = Some np_empty)"
proof -
  from every_product_present [of example_regime_files True]
  obtain st where st: "combine_regime_labels example_regime_files True = Inr (st, True)"
      "dom (combined st) = set products"
    by blast
  from every_product_present [of example_returns_files True]
  obtain st' b where st': "combine_returns_tables example_returns_files True = Inr (st', b)"
      "dom (combined st') = set products"
    by blast
  have "''regup'' \<in> set products \<and> ''nonspin'' \<in> set products" by (simp add: products_def)
  moreover have "combined st ''regup'' = Some \<lparr>shape = [3], items = [Num 1, NaN, Num 2], dtype = Float64\<rparr>
     \<and> combined st ''nonspin'' = Some np_empty"
    using example_regime_run st(1) by simp
  moreover have "combined st' ''regup''
             = Some \<lparr>shape = [3], items = [Num (1 / 2), NaN, Num (- 1)], dtype = Float64\<rparr>
     \<and> combined st' ''nonspin'' = Some np_empty"
    using example_returns_run st'(1) by simp
  ultimately show ?thesis using st st' by blast
qed

lemma regime_product_cong:
  "fs' (regime_filename q) = fs (regime_filename q) \<Longrightarrow> regime_product fs' q s = regime_product fs q s"
  by (simp add: regime_product_def)

lemma returns_product_cong:
  "fs' (returns_filename q) = fs (returns_filename q) \<Longrightarrow> returns_product fs' q s = returns_product fs q s"
  by (simp add: returns_product_def)

lemma regime_entry_cong:
  assumes run: "combine_regime_labels fs ok = Inr (st, b)"
    and run': "combine_regime_labels fs' ok' = Inr (st', b')"
    and same: "fs' (regime_filename q) = fs (regime_filename q)"
  shows "combined st' q = combined st q"
proof -
  from regime_run [of fs ok] run have d: "dom (combined st) = set products"
    and e: "\<forall>p\<in>set products. \<forall>a msg s. regime_product fs p s = Normal (store p a (print msg s))
           \<longrightarrow> combined st p = Some a \<and> msg \<in> set (printed st)"
    by auto
  from regime_run [of fs' ok'] run' have d': "dom (combined st') = set products"
    and e': "\<forall>p\<in>set products. \<forall>a msg s. regime_product fs' p s = Normal (store p a (print msg s))
           \<longrightarrow> combined st' p = Some a \<and> msg \<in> set (printed st')"
    by auto
  show ?thesis
  proof (cases "q \<in> set products")
    case True
    from regime_product_frame [of fs q] obtain a msg
      where r: "\<forall>s. regime_product fs q s = Normal (store q a (print msg s))" by blast
    then have r': "\<forall>s. regime_product fs' q s = Normal (store q a (print msg s))"
      using regime_product_cong [of fs' q fs] same by simp
    from e True r have "combined st q = Some a" by blast
    moreover from e' True r' have "combined st' q = Some a" by blast
    ultimately show ?thesis by simp
  next
    case False
    with d d' have "combined st q = None" "combined st' q = None" by blast+
    then show ?thesis by simp
  qed
qed

lemma returns_entry_cong:
  assumes run: "combine_returns_tables fs ok = Inr (st, b)"
    and run': "combine_returns_tables fs' ok' = Inr (st', b')"
    and same: "fs' (returns_filename q) = fs (returns_filename q)"
  shows "combined st' q = combined st q"
proof -
  from returns_run [of fs ok] run have d: "dom (combined st) = set products"
    and e: "\<forall>p\<in>set products. \<forall>a msg s. returns_product fs p s = Normal (store p a (print msg s))
           \<longrightarrow> combined st p = Some a"
    by auto
  from returns_run [of fs' ok'] run' have d': "dom (combined st') = set products"
    and e': "\<forall>p\<in>set products. \<forall>a msg s. returns_product fs' p s = Normal (store p a (print msg s))
           \<longrightarrow> combined st' p = Some a"
    by auto
  show ?thesis
  proof (cases "q \<in> set products")
    case True
    from returns_product_frame [of fs q] obtain a msg
      where r: "\<forall>s. returns_product fs q s = Normal (store q a (print msg s))" by blast
    then have r': "\<forall>s. returns_product fs' q s = Normal (store q a (print msg s))"
      using returns_product_cong [of fs' q fs] same by simp
    from e True r have "combined st q = Some a" by blast
    moreover from e' True r' have "combined st' q = Some a" by blast
    ultimately show ?thesis by simp
  next
    case False
    with d d' have "combined st q = None" "combined st' q = None" by blast+
    then show ?thesis by simp
  qed
qed

text \<open>
  C6. A product whose file is absent or cannot be loaded gets the empty array, and the
  function returns all the same. What any product gets depends on its own file only:
  two runs on file systems that agree on the file of a product give it the same entry,
  whatever the other files are.
\<close>

theorem absent_source_is_local:
  "(\<exists>st. combine_regime_labels fs ok = Inr (st, ok)
      \<and> (\<forall>p\<in>set products.
            fs (regime_filename p) = Missing \<or> fs (regime_filename p) = Unreadable
            \<longrightarrow> combined st p = Some np_empty)
      \<and> (\<forall>fs' ok' st' b' q. combine_regime_labels fs' ok' = Inr (st', b')
            \<longrightarrow> fs' (regime_filename q) = fs (regime_filename q)
            \<longrightarrow> combined st' q = combined st q))
   \<and> (\<exists>st b. combine_returns_tables fs ok = Inr (st, b)
      \<and> (\<forall>p\<in>set products.
            fs (returns_filename p) = Missing \<or> fs (returns_filename p) = Unreadable
            \<longrightarrow> combined st p = Some np_empty)
      \<and> (\<forall>fs' ok' st' b' q. combine_returns_tables fs' ok' = Inr (st', b')
            \<longrightarrow> fs' (returns_filename q) = fs (returns_filename q)
            \<longrightarrow> combined st' q = combined st q))"
proof
  from regime_run [of fs ok] obtain st where st: "combine_regime_labels fs ok = Inr (st, ok)"
    "\<forall>p\<in>set products. \<forall>a msg s. regime_product fs p s = Normal (store p a (print msg s))
           \<longrightarrow> combined st p = Some a \<and> msg \<in> set (printed st)"
    by blast
  have absent: "\<forall>p\<in>set products.
            fs (regime_filename p) = Missing \<or> fs (regime_filename p) = Unreadable
            \<longrightarrow> combined st p = Some np_empty"
  proof (intro ballI impI)
    fix p assume p: "p \<in> set products"
      and "fs (regime_filename p) = Missing \<or> fs (regime_filename p) = Unreadable"
    then have "\<exists>msg. regime_product fs p initial = Normal (store p np_empty (print msg initial))"
      using regime_product_Missing [of fs p initial] regime_product_Unreadable [of fs p initial]
      by blast
    with st(2) p show "combined st p = Some np_empty" by blast
  qed
  have "\<forall>fs' ok' st' b' q. combine_regime_labels fs' ok' = Inr (st', b')
            \<longrightarrow> fs' (regime_filename q) = fs (regime_filename q)
            \<longrightarrow> combined st' q = combined st q"
    using regime_entry_cong [OF st(1)] by blast
  with st(1) absent show "\<exists>st. combine_regime_labels fs ok = Inr (st, ok)
      \<and> (\<forall>p\<in>set products.
            fs (regime_filename p) = Missing \<or> fs (regime_filename p) = Unreadable
            \<longrightarrow> combined st p = Some np_empty)
      \<and> (\<forall>fs' ok' st' b' q. combine_regime_labels fs' ok' = Inr (st', b')
            \<longrightarrow> fs' (regime_filename q) = fs (regime_filename q)
            \<longrightarrow> combined st' q = combined st q)"
    by blast
next
  from returns_run [of fs ok] obtain st b where st: "combine_returns_tables fs ok = Inr (st, b)"
    "\<forall>p\<in>set products. \<forall>a msg s. returns_product fs p s = Normal (store p a (print msg s))
           \<longrightarrow> combined st p = Some a"
    by blast
  have absent: "\<forall>p\<in>set products.
            fs (returns_filename p) = Missing \<or> fs (returns_filename p) = Unreadable
            \<longrightarrow> combined st p = Some np_empty"
  proof (intro ballI impI)
    fix p assume p: "p \<in> set products"
      and "fs (returns_filename p) = Missing \<or> fs (returns_filename p) = Unreadable"
    then have "\<exists>msg. returns_product fs p initial = Normal (store p np_empty (print msg initial))"
      using returns_product_Missing [of fs p initial] returns_product_Unreadable [of fs p initial]
      by blast
    with st(2) p show "combined st p = Some np_empty" by blast
  qed
  have "\<forall>fs' ok' st' b' q. combine_returns_tables fs' ok' = Inr (st', b')
            \<longrightarrow> fs' (returns_filename q) = fs (returns_filename q)
            \<longrightarrow> combined st' q = combined st q"
    using returns_entry_cong [OF st(1)] by blast
  with st(1) absent show "\<exists>st b. combine_returns_tables fs ok = Inr (st, b)
      \<and> (\<forall>p\<in>set products.
            fs (returns_filename p) = Missing \<or> fs (returns_filename p) = Unreadable
            \<longrightarrow> combined st p = Some np_empty)
      \<and> (\<forall>fs' ok' st' b' q. combine_returns_tables fs' ok' = Inr (st', b')
            \<longrightarrow> fs' (returns_filename q) = fs (returns_filename q)
            \<longrightarrow> combined st' q = combined st q)"
    by blast
qed

theorem absent_source_is_local_witness:
  "''regdown'' \<in> set products
   \<and> example_regime_files (regime_filename ''regdown'') = Unreadable
   \<and> (\<exists>st st'. combine_regime_labels example_regime_files True = Inr (st, True)
         \<and> combined st ''regdown'' = Some np_empty
         \<and> combine_regime_labels (\<lambda>_. Missing) False = Inr (st', False)
         \<and> combined st' ''nodalPrices'' = combined st ''nodalPrices'')
   \<and> ''nonspin'' \<in> set products
   \<and> example_returns_files (returns_filename ''nonspin'') = Missing
   \<and> (\<exists>st b st' b'. combine_returns_tables example_returns_files True = Inr (st, b)
         \<and> combined st ''nonspin'' = Some np_empty
         \<and> combine_returns_tables (\<lambda>_. Missing) False = Inr (st', b')
         \<and> combined st' ''regdown'' = combined st ''regdown'')"
proof -
  have p1: "''regdown'' \<in> set products" and p2: "''nonspin'' \<in> set products"
    by (simp_all add: products_def)
  have f1: "example_regime_files (regime_filename ''regdown'') = Unreadable"
    and f2: "example_returns_files (returns_filename ''nonspin'') = Missing"
    and f3: "(\<lambda>_. Missing) (regime_filename ''nodalPrices'')
        = example_regime_files (regime_filename ''nodalPrices'')"
    and f4: "(\<lambda>_. Missing) (returns_filename ''regdown'')
        = example_returns_files (returns_filename ''regdown'')"
    by (simp_all add: example_regime_files_def example_returns_files_def regime_filename_def
        returns_filename_def)
  from absent_source_is_local [of example_regime_files True]
  obtain st where st: "combine_regime_labels example_regime_files True = Inr (st, True)"
    "\<forall>p\<in>set products.
        example_regime_files (regime_filename p) = Missing
        \<or> example_regime_files (regime_filename p) = Unreadable
        \<longrightarrow> combined st p = Some np_empty"
    "\<forall>fs' ok' st' b' q. combine_regime_labels fs' ok' = Inr (st', b')
        \<longrightarrow> fs' (regime_filename q) = example_regime_files (regime_filename q)
        \<longrightarrow> combined st' q = combined st q"
    by blast
  from regime_run [of "\<lambda>_. Missing" False]
  obtain st' where st': "combine_regime_labels (\<lambda>_. Missing) False = Inr (st', False)" by blast
  have a: "combined st ''regdown'' = Some np_empty" using st(2) p1 f1 by blast
  have b: "combined st' ''nodalPrices'' = combined st ''nodalPrices''"
    using st(3) st' f3 by blast
  from absent_source_is_local [of example_returns_files True]
  obtain rt rb where rt: "combine_returns_tables example_returns_files True = Inr (rt, rb)"
    "\<forall>p\<in>set products.
        example_returns_files (returns_filename p) = Missing
        \<or> example_returns_files (returns_filename p) = Unreadable
        \<longrightarrow> combined rt p = Some np_empty"
    "\<forall>fs' ok' st' b' q. combine_returns_tables fs' ok' = Inr (st', b')
        \<longrightarrow> fs' (returns_filename q) = example_returns_files (returns_filename q)
        \<longrightarrow> combined st' q = combined rt q"
    by blast
  from returns_run [of "\<lambda>_. Missing" False]
  obtain rt' rb' where rt': "combine_returns_tables (\<lambda>_. Missing) False = Inr (rt', rb')" by blast
  have c: "combined rt ''nonspin'' = Some np_empty" using rt(2) p2 f2 by blast
  have d: "combined rt' ''regdown'' = combined rt ''regdown''"
    using rt(3) rt' f4 by blast
  from p1 p2 f1 f2 st(1) st' a b rt(1) rt' c d show ?thesis by blast
qed

text \<open>
  The keys before the first one that does not start with two underscores are passed
  over, and the value of that key is the one paired with it.
\<close>

lemma first_variable:
  assumes pre: "\<forall>key\<in>set (map fst pre). startswith key ''__''" and k: "\<not> startswith k ''__''"
  shows "filter (\<lambda>key. \<not> startswith key ''__'') (map fst (pre @ (k, x) # post))
           = k # filter (\<lambda>key. \<not> startswith key ''__'') (map fst post)"
    and "map_of (pre @ (k, x) # post) k = Some x"
proof -
  show "filter (\<lambda>key. \<not> startswith key ''__'') (map fst (pre @ (k, x) # post))
           = k # filter (\<lambda>key. \<not> startswith key ''__'') (map fst post)"
    using pre k by (induction pre) auto
  have "k \<notin> fst ` set pre" using pre k by auto
  then have "map_of pre k = None" by (simp add: map_of_eq_None_iff)
  then show "map_of (pre @ (k, x) # post) k = Some x" by (simp add: map_add_def)
qed

lemma squeeze_vector_dtype: "dtype (squeeze_vector a) = dtype a"
  by (simp add: squeeze_vector_def flatten_def)

lemma squeeze_vector_unsized: "(shape (squeeze_vector a) = []) = (shape a = [])"
  by (auto simp: squeeze_vector_def flatten_def ndim_def)

text \<open>
  C10, as the code has it. For a loaded file, the entry of the product is the data of
  the first variable whose name does not start with two underscores, flattened if it is
  two-dimensional with a dimension of size 1, whatever the variables around it are,
  provided the data is numeric and not zero-dimensional; it is the empty array when the
  data is not numeric, and when no variable has such a name.
\<close>

theorem regime_first_variable:
  assumes "p \<in> set products" and "fs (regime_filename p) = Loaded data"
  shows "\<exists>st. combine_regime_labels fs ok = Inr (st, ok)
     \<and> ((\<forall>key\<in>set (map fst data). startswith key ''__'') \<longrightarrow> combined st p = Some np_empty)
     \<and> (\<forall>pre k v post. data = pre @ (k, Var v) # post
           \<longrightarrow> (\<forall>key\<in>set (map fst pre). startswith key ''__'') \<longrightarrow> \<not> startswith k ''__''
           \<longrightarrow> combined st p = Some (if dtype (whole v) = Float64 \<and> shape (whole v) \<noteq> []
                                       then squeeze_vector (whole v) else np_empty))"
proof -
  from regime_run [of fs ok] obtain st where st: "combine_regime_labels fs ok = Inr (st, ok)"
    "\<forall>p\<in>set products. \<forall>a msg s. regime_product fs p s = Normal (store p a (print msg s))
           \<longrightarrow> combined st p = Some a \<and> msg \<in> set (printed st)"
    by blast
  have entry: "combined st p = Some a"
    if "regime_product fs p initial = Normal (store p a (print msg initial))" for a msg
    using st(2) assms(1) that by blast
  have none: "combined st p = Some np_empty" if "\<forall>key\<in>set (map fst data). startswith key ''__''"
  proof -
    from that have "filter (\<lambda>key. \<not> startswith key ''__'') (map fst data) = []"
      by (simp add: filter_empty_conv)
    from regime_product_no_variable [where fs = fs and p = p, OF assms(2) this]
    show ?thesis by (rule entry)
  qed
  have first: "combined st p = Some (if dtype (whole v) = Float64 \<and> shape (whole v) \<noteq> []
                                       then squeeze_vector (whole v) else np_empty)"
    if data: "data = pre @ (k, Var v) # post"
      and pre: "\<forall>key\<in>set (map fst pre). startswith key ''__''" and k: "\<not> startswith k ''__''"
    for pre k v post
  proof -
    from first_variable [OF pre k, of "Var v" post]
    have f: "filter (\<lambda>key. \<not> startswith key ''__'') (map fst data)
           = k # filter (\<lambda>key. \<not> startswith key ''__'') (map fst post)"
      and m: "map_of data k = Some (Var v)"
      unfolding data by simp_all
    show ?thesis
    proof (cases "dtype (whole v) = Float64 \<and> shape (whole v) \<noteq> []")
      case True
      then obtain n ns where num: "dtype (squeeze_vector (whole v)) = Float64"
        "shape (squeeze_vector (whole v)) = n # ns"
        using squeeze_vector_unsized [of "whole v"]
        by (cases "shape (squeeze_vector (whole v))") (auto simp: squeeze_vector_dtype)
      from regime_product_numeric [where fs = fs and p = p, OF assms(2) f m num]
      have "combined st p = Some (squeeze_vector (whole v))" by (rule entry)
      with True show ?thesis by simp
    next
      case False
      then have "dtype (squeeze_vector (whole v)) = Object \<or> shape (squeeze_vector (whole v)) = []"
        by (cases "dtype (whole v)") (auto simp: squeeze_vector_dtype squeeze_vector_unsized)
      from regime_product_not_numeric [where fs = fs and p = p, OF assms(2) f m this]
      have "combined st p = Some np_empty" by (rule entry)
      with False show ?thesis by auto
    qed
  qed
  from st(1) none first show ?thesis by blast
qed

theorem regime_first_variable_witness:
  "''regup'' \<in> set products
   \<and> example_regime_files (regime_filename ''regup'')
       = Loaded ([(''__header__'', Meta), (''__version__'', Meta), (''__globals__'', Meta)]
           @ (''regimeLabels'', Var \<lparr>whole = example_labels, columns = []\<rparr>)
           # [(''zz'', Var \<lparr>whole = np_empty, columns = []\<rparr>)])
   \<and> (\<exists>st. combine_regime_labels example_regime_files True = Inr (st, True)
         \<and> combined st ''regup''
             = Some \<lparr>shape = [3], items = [Num 1, NaN, Num 2], dtype = Float64\<rparr>)"
proof -
  have p: "''regup'' \<in> set products" by (simp add: products_def)
  have f: "example_regime_files (regime_filename ''regup'')
       = Loaded ([(''__header__'', Meta), (''__version__'', Meta), (''__globals__'', Meta)]
           @ (''regimeLabels'', Var \<lparr>whole = example_labels, columns = []\<rparr>)
           # [(''zz'', Var \<lparr>whole = np_empty, columns = []\<rparr>)])"
    by (simp add: example_regime_files_def)
  from regime_first_variable [where fs = example_regime_files and ok = True, OF p f]
  obtain st where st: "combine_regime_labels example_regime_files True = Inr (st, True)"
    "\<forall>pre k v post. [(''__header__'', Meta), (''__version__'', Meta), (''__globals__'', Meta)]
           @ (''regimeLabels'', Var \<lparr>whole = example_labels, columns = []\<rparr>)
           # [(''zz'', Var \<lparr>whole = np_empty, columns = []\<rparr>)] = pre @ (k, Var v) # post
           \<longrightarrow> (\<forall>key\<in>set (map fst pre). startswith key ''__'') \<longrightarrow> \<not> startswith k ''__''
           \<longrightarrow> combined st ''regup'' = Some (if dtype (whole v) = Float64 \<and> shape (whole v) \<noteq> []
                                       then squeeze_vector (whole v) else np_empty)"
    by blast
  from st(2) [THEN spec [where x = "[(''__header__'', Meta), (''__version__'', Meta), (''__globals__'', Meta)]"],
      THEN spec [where x = "''regimeLabels''"],
      THEN spec [where x = "\<lparr>whole = example_labels, columns = []\<rparr>"],
      THEN spec [where x = "[(''zz'', Var \<lparr>whole = np_empty, columns = []\<rparr>)]"]]
  have "combined st ''regup'' = Some \<lparr>shape = [3], items = [Num 1, NaN, Num 2], dtype = Float64\<rparr>"
    by (simp add: startswith_def example_labels_def squeeze_vector_def ndim_def flatten_def)
  with p f st(1) show ?thesis by blast
qed

text \<open>
  C10, as the specification words it, fails: the first variable of the file of
  \<open>nonspin\<close> is the cell array \<open>info\<close>, on which \<^verbatim>\<open>np.isnan\<close> raises; the handler then
  replaces the array just stored by the empty one.
\<close>

theorem regime_first_variable_counterexample:
  "example_regime_files (regime_filename ''nonspin'')
     = Loaded [(''__header__'', Meta),
               (''info'', Var \<lparr>whole = example_cells, columns = []\<rparr>),
               (''regimeLabels'', Var \<lparr>whole = example_labels, columns = []\<rparr>)]
   \<and> combine_regime_labels example_regime_files True
     = Inr (\<lparr>combined = [''nodalPrices'' \<mapsto> np_empty, ''hubPrices'' \<mapsto> np_empty,
                ''nodalGeneration'' \<mapsto> np_empty,
                ''regup'' \<mapsto> \<lparr>shape = [3], items = [Num 1, NaN, Num 2], dtype = Float64\<rparr>,
                ''regdown'' \<mapsto> np_empty, ''nonspin'' \<mapsto> np_empty,
                ''hourlyHubForecasts'' \<mapsto> np_empty, ''hourlyNodalForecasts'' \<mapsto> np_empty],
             printed = [FileNotFound ''EDA_Results/regimeLabels_nodalPrices.mat'',
                FileNotFound ''EDA_Results/regimeLabels_hubPrices.mat'',
                FileNotFound ''EDA_Results/regimeLabels_nodalGeneration.mat'',
                RegimeStats ''regup'' 3 [1, 2], ErrorCaught OSError, ErrorCaught TypeError,
                FileNotFound ''EDA_Results/regimeLabels_hourlyHubForecasts.mat'',
                FileNotFound ''EDA_Results/regimeLabels_hourlyNodalForecasts.mat'']\<rparr>, True)
   \<and> squeeze_vector example_cells \<noteq> np_empty"
  by (simp add: run_defs example_regime_files_def example_labels_def example_cells_def)

lemma flatten_singleton:
  assumes "shape a = [1, n] \<or> shape a = [n, 1]"
  shows "squeeze_vector a = flatten a" and "shape (flatten a) = [n]"
    and "items (flatten a) = items a" and "dtype (flatten a) = dtype a"
    and "at1 (flatten a) i = (if shape a = [1, n] then at2 a 0 i else at2 a i 0)"
    and "well_formed a \<Longrightarrow> length (items (flatten a)) = n"
  using assms
  by (auto simp: squeeze_vector_def flatten_def ndim_def at1_def at2_def well_formed_def)

lemma returns_entry:
  assumes p: "p \<in> set products" and f: "fs (returns_filename p) = Loaded data"
    and m: "map_of data ''returnsTable'' = Some (Var v)"
    and x: "extract_series p v = Inr (flatten c)"
  shows "\<exists>st b. combine_returns_tables fs ok = Inr (st, b) \<and> combined st p = Some (flatten c)"
proof -
  from returns_run [of fs ok] obtain st b where st: "combine_returns_tables fs ok = Inr (st, b)"
    "\<forall>p\<in>set products. \<forall>a msg s. returns_product fs p s = Normal (store p a (print msg s))
           \<longrightarrow> combined st p = Some a"
    by blast
  from m have "(''returnsTable'', Var v) \<in> set data" by (rule map_of_SomeD)
  then have k: "''returnsTable'' \<in> fst ` set data" by force
  from returns_product_table [where fs = fs and p = p and st = initial, OF f k m x] st(2) p
  have "combined st p = Some (flatten c)" by blast
  with st(1) show ?thesis by blast
qed

text \<open>
  C5. An array of shape \<open>(1, n)\<close> or \<open>(n, 1)\<close>, with its \<open>n\<close> elements, is stored as a
  one-dimensional array of \<open>n\<close> elements, the same elements in the same order: element
  \<open>i\<close> of the stored series is element \<open>(0, i)\<close>, respectively \<open>(i, 0)\<close>, of the input. This holds for the regime
  labels (numeric data, the first variable of the file) and for the returns (the plain
  array, or the selected field of a structured one).
\<close>

theorem singleton_dimension_flattened:
  assumes "p \<in> set products" and "shape a = [1, n] \<or> shape a = [n, 1]"
    and "well_formed a"
  shows "(\<forall>pre k v post. fs (regime_filename p) = Loaded (pre @ (k, Var v) # post)
            \<longrightarrow> (\<forall>key\<in>set (map fst pre). startswith key ''__'') \<longrightarrow> \<not> startswith k ''__''
            \<longrightarrow> whole v = a \<longrightarrow> dtype a = Float64
            \<longrightarrow> (\<exists>st s. combine_regime_labels fs ok = Inr (st, ok) \<and> combined st p = Some s
                   \<and> shape s = [n] \<and> items s = items a \<and> length (items s) = n
                   \<and> (\<forall>i<n. at1 s i = (if shape a = [1, n] then at2 a 0 i else at2 a i 0))))
       \<and> (\<forall>data v. fs (returns_filename p) = Loaded data
            \<longrightarrow> map_of data ''returnsTable'' = Some (Var v)
            \<longrightarrow> (dtype_names v = [] \<and> whole v = a)
                 \<or> (\<exists>f. select_field p (dtype_names v) = Inr f \<and> getfield v f = Inr a)
            \<longrightarrow> (\<exists>st b s. combine_returns_tables fs ok = Inr (st, b) \<and> combined st p = Some s
                   \<and> shape s = [n] \<and> items s = items a \<and> length (items s) = n
                   \<and> (\<forall>i<n. at1 s i = (if shape a = [1, n] then at2 a 0 i else at2 a i 0))))"
proof (intro conjI allI impI)
  fix pre k v post
  assume f: "fs (regime_filename p) = Loaded (pre @ (k, Var v) # post)"
    and pre: "\<forall>key\<in>set (map fst pre). startswith key ''__''" and k: "\<not> startswith k ''__''"
    and v: "whole v = a" and num: "dtype a = Float64"
  from regime_run [of fs ok] obtain st where st: "combine_regime_labels fs ok = Inr (st, ok)"
    "\<forall>p\<in>set products. \<forall>a msg s. regime_product fs p s = Normal (store p a (print msg s))
           \<longrightarrow> combined st p = Some a \<and> msg \<in> set (printed st)"
    by blast
  have sq: "squeeze_vector (whole v) = flatten a"
    using flatten_singleton(1) [OF assms(2)] v by simp
  have "dtype (squeeze_vector (whole v)) = Float64" "shape (squeeze_vector (whole v)) = [n]"
    using sq num flatten_singleton(2,4) [OF assms(2)] by simp_all
  from regime_product_numeric [where fs = fs and p = p and st = initial, OF f
      first_variable [OF pre k] this] st(2) assms(1)
  have "combined st p = Some (flatten a)" unfolding sq by blast
  with st(1) flatten_singleton [OF assms(2)] assms(3)
  show "\<exists>st s. combine_regime_labels fs ok = Inr (st, ok) \<and> combined st p = Some s
                   \<and> shape s = [n] \<and> items s = items a \<and> length (items s) = n
                   \<and> (\<forall>i<n. at1 s i = (if shape a = [1, n] then at2 a 0 i else at2 a i 0))"
    by auto
next
  fix data v
  assume f: "fs (returns_filename p) = Loaded data"
    and m: "map_of data ''returnsTable'' = Some (Var v)"
    and src: "(dtype_names v = [] \<and> whole v = a)
                 \<or> (\<exists>f. select_field p (dtype_names v) = Inr f \<and> getfield v f = Inr a)"
  have "extract_series p v = Inr (flatten a)"
    using src
  proof (elim disjE conjE exE)
    assume "dtype_names v = []" "whole v = a"
    then show ?thesis by (simp add: extract_series_def)
  next
    fix g assume g: "select_field p (dtype_names v) = Inr g" "getfield v g = Inr a"
    from g(1) have "dtype_names v \<noteq> []" by (auto simp: select_field_def)
    with g show ?thesis by (simp add: extract_series_def)
  qed
  from returns_entry [where fs = fs and ok = ok, OF assms(1) f m this]
    flatten_singleton [OF assms(2)] assms(3)
  show "\<exists>st b s. combine_returns_tables fs ok = Inr (st, b) \<and> combined st p = Some s
                   \<and> shape s = [n] \<and> items s = items a \<and> length (items s) = n
                   \<and> (\<forall>i<n. at1 s i = (if shape a = [1, n] then at2 a 0 i else at2 a i 0))"
    by auto
qed

theorem singleton_dimension_flattened_witness:
  "''regup'' \<in> set products \<and> shape example_labels = [1, 3] \<and> shape example_column = [3, 1]
   \<and> well_formed example_labels \<and> well_formed example_column
   \<and> (\<exists>st s. combine_regime_labels example_regime_files True = Inr (st, True)
         \<and> combined st ''regup'' = Some s \<and> shape s = [3] \<and> items s = [Num 1, NaN, Num 2]
         \<and> at1 s 1 = at2 example_labels 0 1)
   \<and> (\<exists>st b s. combine_returns_tables example_returns_files True = Inr (st, b)
         \<and> combined st ''regup'' = Some s \<and> shape s = [3]
         \<and> items s = [Num (1 / 2), NaN, Num (- 1)]
         \<and> at1 s 2 = at2 example_column 2 0)"
proof -
  have p: "''regup'' \<in> set products" by (simp add: products_def)
  have l: "shape example_labels = [1, 3] \<or> shape example_labels = [3, 1]"
    and c: "shape example_column = [1, 3] \<or> shape example_column = [3, 1]"
    and wl: "well_formed example_labels" and wc: "well_formed example_column"
    by (simp_all add: example_labels_def example_column_def well_formed_def)
  have "\<exists>st s. combine_regime_labels example_regime_files True = Inr (st, True)
         \<and> combined st ''regup'' = Some s \<and> shape s = [3] \<and> items s = items example_labels
         \<and> length (items s) = 3
         \<and> (\<forall>i<3. at1 s i = (if shape example_labels = [1, 3]
               then at2 example_labels 0 i else at2 example_labels i 0))"
    using singleton_dimension_flattened [where fs = example_regime_files and ok = True, OF p l wl,
      THEN conjunct1,
      THEN spec [where x = "[(''__header__'', Meta), (''__version__'', Meta), (''__globals__'', Meta)]"],
      THEN spec [where x = "''regimeLabels''"],
      THEN spec [where x = "\<lparr>whole = example_labels, columns = []\<rparr>"],
      THEN spec [where x = "[(''zz'', Var \<lparr>whole = np_empty, columns = []\<rparr>)]"]]
    by (simp add: example_regime_files_def startswith_def) (simp add: example_labels_def)
  then have r1: "\<exists>st s. combine_regime_labels example_regime_files True = Inr (st, True)
         \<and> combined st ''regup'' = Some s \<and> shape s = [3] \<and> items s = [Num 1, NaN, Num 2]
         \<and> at1 s 1 = at2 example_labels 0 1"
    by (auto simp: example_labels_def)
  have "\<exists>st b s. combine_returns_tables example_returns_files True = Inr (st, b)
         \<and> combined st ''regup'' = Some s \<and> shape s = [3] \<and> items s = items example_column
         \<and> length (items s) = 3
         \<and> (\<forall>i<3. at1 s i = (if shape example_column = [1, 3]
               then at2 example_column 0 i else at2 example_column i 0))"
    using singleton_dimension_flattened [where fs = example_returns_files and ok = True, OF p c wc,
      THEN conjunct2,
      THEN spec [where x = "[(''__header__'', Meta), (''returnsTable'', Var example_table)]"],
      THEN spec [where x = "example_table"]]
    by (simp add: example_returns_files_def example_table_def dtype_names_def getfield_def
        select_field_def primary_match_def)
  then have r2: "\<exists>st b s. combine_returns_tables example_returns_files True = Inr (st, b)
         \<and> combined st ''regup'' = Some s \<and> shape s = [3]
         \<and> items s = [Num (1 / 2), NaN, Num (- 1)]
         \<and> at1 s 2 = at2 example_column 2 0"
    by (auto simp: example_column_def)
  from p r1 r2 wl wc show ?thesis by (simp add: example_labels_def example_column_def)
qed









end
